theory Spec2Isabelle
  imports Main "HOL-Library.Word"
begin

section \<open>Data model\<close>

text \<open>
  The development embeds \<^verbatim>\<open>whitesource_backend/component.py\<close> and
  \<^verbatim>\<open>whitesource_backend/util.py\<close>. The handler \<^verbatim>\<open>Component.on_websocket\<close> is a
  script of calls into libraries (falcon, json, dacite, tarfile, os, subprocess, requests).
  What the libraries answer is an input of the model (the record \<open>env\<close> and the frames
  queued in the \<open>world\<close>); what the handler does with the answers is translated from the
  source, branch by branch.
\<close>

type_synonym bytes = "8 word list"

text \<open>A Python \<^verbatim>\<open>str\<close> that may hold any Unicode text: the list of its code points.\<close>

type_synonym pystr = "nat list"

text \<open>
  The exception classes the source raises, catches or lets through. The classes caught by
  the source are leaves of the Python hierarchy, so an \<^verbatim>\<open>except\<close> clause is a test for
  equality with one of its classes.
\<close>

datatype exn =
    JSONDecodeError | MissingValueError
  | WebSocketDisconnected | PayloadTypeError
  | ReadError | UnicodeDecodeError | InvalidHeaderError
  | StreamError | KeyError
  | HTTPError | RuntimeError | AttributeError
  | FileExistsError | FileNotFoundError | IsADirectoryError
  | OtherError

text \<open>\<^verbatim>\<open>protocol.WhiteSourceApiExtensionStatusCodeReasons\<close>: the three members the handler uses.\<close>

datatype status_code = CONTRACT_VIOLATION | CHUNK_SIZE_TOO_BIG | BINARY_CORRUPTED

text \<open>\<^verbatim>\<open>protocol.WhiteSourceApiExtensionWebsocketMetadata\<close>; the field \<^verbatim>\<open>length\<close> is \<open>length'\<close> here.\<close>

record metadata =
  chunkSize :: int
  length' :: int

text \<open>\<^verbatim>\<open>protocol.WhiteSourceApiExtensionWebsocketWSConfig\<close>: the fields the source reads.\<close>

record ws_config =
  projectName :: string
  apiKey :: string
  userKey :: string
  wssUrl :: string
  productToken :: string
  requesterEmail :: string
  extraWsConfig :: "(string \<times> string) list option"

text \<open>\<^verbatim>\<open>subprocess.CompletedProcess\<close> with captured output.\<close>

record completed_process =
  returncode :: int
  stdout :: bytes
  stderr :: bytes

text \<open>
  Modelled from the spec: the dataclass \<^verbatim>\<open>model.ScanResult\<close> (module \<^verbatim>\<open>model\<close> is imported
  by \<^verbatim>\<open>component.py\<close> and is not among the source files). Section 3 of the specification
  gives its fields: \<^verbatim>\<open>{ successful: bool, message: string }\<close>.
\<close>

record scan_result =
  successful :: bool
  message :: pystr

text \<open>A websocket message as the peer sends it.\<close>

datatype frame = TextFrame string | DataFrame bytes

text \<open>The calls the handler makes on the websocket, in the order it makes them.\<close>

datatype event = Accept | ReceiveText | ReceiveData | Close status_code | SendText string

text \<open>
  Log records. A record keeps the fixed text of the message; interpolated values are left
  out, except in the transfer progress line, which keeps its two counters.
\<close>

datatype log = Info string | Warn string | Error string | Progress int int

subsection \<open>Files\<close>

text \<open>
  A location is the list of the components of a normalised absolute path. The file system
  is an association list from locations to nodes; a directory that was never created by
  itself exists as soon as something lies below it.
\<close>

datatype node = File bytes | Dir

type_synonym location = "string list"

type_synonym fs = "(location \<times> node) list"

text \<open>
  A member of an archive as \<^verbatim>\<open>TarFile.next()\<close> returns it, and what happens when the
  handler asks for the next member of an opened archive and extracts it:
  \<^item> \<open>Member m\<close>: \<^verbatim>\<open>next()\<close> returns \<open>m\<close> and \<^verbatim>\<open>extract(m, ...)\<close> succeeds;
  \<^item> \<open>Faulty m e\<close>: \<^verbatim>\<open>next()\<close> returns \<open>m\<close> and \<^verbatim>\<open>extract(m, ...)\<close> raises \<open>e\<close>;
  \<^item> \<open>Broken e\<close>: \<^verbatim>\<open>next()\<close> raises \<open>e\<close>.
  The end of the list is \<^verbatim>\<open>next()\<close> returning \<^verbatim>\<open>None\<close>.
\<close>

record tar_info =
  name :: string
  body :: node

datatype tar_step = Member tar_info | Faulty tar_info exn | Broken exn

subsection \<open>The environment\<close>

text \<open>
  The answers of the libraries and the constants of the module \<^verbatim>\<open>paths\<close> (imported by both
  source files and not among them):
  \<^item> \<open>parse_metadata\<close>, \<open>parse_config\<close>: \<^verbatim>\<open>dacite.from_dict(data_class=..., data=json.loads(text))\<close>;
  \<^item> \<open>untar\<close>: \<^verbatim>\<open>tarfile.open(..., mode='r|*')\<close> on a stream with these bytes, \<open>Inl e\<close> when
    opening raises \<open>e\<close>, otherwise the steps of reading it;
  \<^item> \<open>subprocess_run\<close>: \<^verbatim>\<open>subprocess.run(args, cwd=...)\<close> on the current files;
  \<^item> \<open>json_dumps\<close>: \<^verbatim>\<open>json.dumps(dataclasses.asdict(res))\<close>;
  \<^item> \<open>requests_get\<close>: the download of the agent, \<open>Inl e\<close> when the request, its status
    check or the streaming of its body raises \<open>e\<close>;
  \<^item> \<open>tmpfile_ok\<close>: whether \<^verbatim>\<open>tempfile.NamedTemporaryFile(delete=False)\<close> succeeds;
  \<^item> \<open>tmp_dir\<close>: the name \<^verbatim>\<open>tempfile.TemporaryDirectory()\<close> returns;
  \<^item> \<open>wss_agent_name\<close>, \<open>java_path\<close>: \<^verbatim>\<open>paths.wss_agent_name\<close>, \<^verbatim>\<open>paths.java_path\<close>.
\<close>

record env =
  parse_metadata :: "string \<Rightarrow> exn + metadata"
  parse_config :: "string \<Rightarrow> exn + ws_config"
  untar :: "bytes \<Rightarrow> exn + tar_step list"
  subprocess_run :: "string list \<Rightarrow> fs \<Rightarrow> exn + completed_process"
  json_dumps :: "scan_result \<Rightarrow> string"
  requests_get :: "exn + bytes"
  tmpfile_ok :: bool
  tmp_dir :: string
  wss_agent_name :: string
  java_path :: string

subsection \<open>The state\<close>

text \<open>
  \<^item> \<open>inbox\<close>: the frames the peer sends before it disconnects;
  \<^item> \<open>events\<close>: the websocket calls made so far;
  \<^item> \<open>logs\<close>: the log records written so far;
  \<^item> \<open>staged\<close>: the bytes written to the staging file \<^verbatim>\<open>tar_file\<close>;
  \<^item> \<open>files\<close>: the file system;
  \<^item> \<open>agent\<close>: the canonical agent file at \<^verbatim>\<open>paths.wss_agent_path\<close>, when present, with its
    modification time and contents;
  \<^item> \<open>now\<close>: the clock, in microseconds;
  \<^item> \<open>refreshes\<close>: the number of background threads started to pull the agent;
  \<^item> \<open>runs\<close>: the argument lists of the subprocesses run so far;
  \<^item> \<open>config_file\<close>: the text appended to \<^verbatim>\<open>wss-generated-file.config\<close>.
\<close>

record world =
  inbox :: "frame list"
  events :: "event list"
  logs :: "log list"
  staged :: bytes
  files :: fs
  agent :: "(int \<times> bytes) option"
  now :: int
  refreshes :: nat
  runs :: "string list list"
  config_file :: string

datatype outcome = Returned | Raised exn

section \<open>Library primitives\<close>

subsection \<open>Strings and paths\<close>

text \<open>\<^verbatim>\<open>s.startswith(p)\<close> and \<^verbatim>\<open>s.endswith(p)\<close>.\<close>

definition startswith :: "string \<Rightarrow> string \<Rightarrow> bool" where
  "startswith p s = (take (length p) s = p)"

definition endswith :: "string \<Rightarrow> string \<Rightarrow> bool" where
  "endswith p s = (length p \<le> length s \<and> drop (length s - length p) s = p)"

text \<open>
  \<^verbatim>\<open>s.replace(old, new)\<close>: every occurrence of \<open>old\<close>, found from the left and without
  overlap, is replaced. With an empty \<open>old\<close> Python puts \<open>new\<close> before every character
  and at the end.
\<close>

fun str_replace :: "string \<Rightarrow> string \<Rightarrow> string \<Rightarrow> string" where
  "str_replace old new [] = (if old = [] then new else [])"
| "str_replace old new (c # cs) =
     (if old = [] then new @ c # str_replace old new cs
      else if startswith old (c # cs) then new @ str_replace old new (drop (length old - 1) cs)
      else c # str_replace old new cs)"

text \<open>\<^verbatim>\<open>os.path.join(a, b)\<close> of \<^verbatim>\<open>posixpath\<close>, for two arguments.\<close>

definition posix_join :: "string \<Rightarrow> string \<Rightarrow> string" where
  "posix_join a b =
     (if startswith ''/'' b then b
      else if a = [] \<or> endswith ''/'' a then a @ b
      else a @ ''/'' @ b)"

text \<open>\<^verbatim>\<open>s.split(sep)\<close> for a separator of one character.\<close>

fun split_on :: "char \<Rightarrow> string \<Rightarrow> string list" where
  "split_on s [] = [[]]"
| "split_on s (c # cs) =
     (if c = s then [] # split_on s cs
      else (case split_on s cs of [] \<Rightarrow> [[c]] | x # xs \<Rightarrow> (c # x) # xs))"

text \<open>
  The location a path names: \<^verbatim>\<open>os.path.normpath\<close> of an absolute path, as components.
  Empty components and \<^verbatim>\<open>.\<close> are dropped, \<^verbatim>\<open>..\<close> removes the component before it and is
  dropped at the root. Links are not followed.
\<close>

definition norm_step :: "location \<Rightarrow> string \<Rightarrow> location" where
  "norm_step st c =
     (if c = [] \<or> c = ''.'' then st
      else if c = ''..'' then butlast st
      else st @ [c])"

definition resolve :: "string \<Rightarrow> location" where
  "resolve p = foldl norm_step [] (split_on CHR ''/'' p)"

text \<open>A location lies inside a directory when the directory's location is a prefix of it.\<close>

definition inside :: "location \<Rightarrow> location \<Rightarrow> bool" where
  "inside d p = (take (length d) p = d)"

subsection \<open>The file system\<close>

definition fs_write :: "location \<Rightarrow> node \<Rightarrow> fs \<Rightarrow> fs" where
  "fs_write p n fs = filter (\<lambda>(q, _). q \<noteq> p) fs @ [(p, n)]"

definition fs_remove :: "location \<Rightarrow> fs \<Rightarrow> fs" where
  "fs_remove p fs = filter (\<lambda>(q, _). q \<noteq> p) fs"

definition fs_lookup :: "location \<Rightarrow> fs \<Rightarrow> node option" where
  "fs_lookup p fs =
     (case map_of fs p of
        Some n \<Rightarrow> Some n
      | None \<Rightarrow> if list_ex (\<lambda>(q, _). inside p q) fs then Some Dir else None)"

text \<open>\<^verbatim>\<open>os.listdir(d)\<close>: the names directly below \<open>d\<close>.\<close>

definition listdir :: "location \<Rightarrow> fs \<Rightarrow> string list" where
  "listdir d fs =
     remdups (map (\<lambda>(p, _). p ! length d)
       (filter (\<lambda>(p, _). inside d p \<and> length d < length p) fs))"

text \<open>
  \<^verbatim>\<open>TarFile.extract(tar_info, path=..., set_attrs=False)\<close> called without a filter: the
  member is placed at \<^verbatim>\<open>os.path.join(path, tar_info.name)\<close>.
\<close>

definition fs_extract :: "tar_info \<Rightarrow> string \<Rightarrow> fs \<Rightarrow> fs" where
  "fs_extract m path fs = fs_write (resolve (posix_join path (name m))) (body m) fs"

subsection \<open>Decoding and printing\<close>

text \<open>
  \<^verbatim>\<open>b.decode('utf-8')\<close>: \<open>None\<close> is \<^verbatim>\<open>UnicodeDecodeError\<close>. A lead byte announces the number of
  continuation bytes; overlong forms, surrogates and values above \<^verbatim>\<open>0x10FFFF\<close> are
  rejected.
\<close>

definition utf8_trail :: "8 word \<Rightarrow> nat option" where
  "utf8_trail b =
     (if b < 0x80 then Some 0
      else if 0xC2 \<le> b \<and> b \<le> 0xDF then Some 1
      else if 0xE0 \<le> b \<and> b \<le> 0xEF then Some 2
      else if 0xF0 \<le> b \<and> b \<le> 0xF4 then Some 3
      else None)"

definition utf8_cont :: "8 word \<Rightarrow> bool" where
  "utf8_cont b = (0x80 \<le> b \<and> b \<le> 0xBF)"

definition utf8_point :: "8 word \<Rightarrow> bytes \<Rightarrow> nat" where
  "utf8_point b cs =
     foldl (\<lambda>acc c. acc * 64 + (unat c - 128))
       (if cs = [] then unat b
        else if length cs = 1 then unat b - 192
        else if length cs = 2 then unat b - 224
        else unat b - 240) cs"

definition utf8_scalar_ok :: "nat \<Rightarrow> nat \<Rightarrow> bool" where
  "utf8_scalar_ok k cp =
     (if k = 0 then True
      else if k = 1 then 128 \<le> cp
      else if k = 2 then 2048 \<le> cp \<and> \<not> (55296 \<le> cp \<and> cp \<le> 57343)
      else 65536 \<le> cp \<and> cp \<le> 1114111)"

fun utf8_decode :: "bytes \<Rightarrow> pystr option" where
  "utf8_decode [] = Some []"
| "utf8_decode (b # bs) =
     (case utf8_trail b of
        None \<Rightarrow> None
      | Some k \<Rightarrow>
          if length bs < k \<or> \<not> list_all utf8_cont (take k bs)
             \<or> \<not> utf8_scalar_ok k (utf8_point b (take k bs))
          then None
          else (case utf8_decode (drop k bs) of
                  None \<Rightarrow> None
                | Some r \<Rightarrow> Some (utf8_point b (take k bs) # r)))"

text \<open>\<^verbatim>\<open>str(n)\<close> for an integer: its decimal digits, with a minus sign when negative.\<close>

fun str_nat :: "nat \<Rightarrow> string" where
  "str_nat n =
     (if n < 10 then [''0123456789'' ! n]
      else str_nat (n div 10) @ [''0123456789'' ! (n mod 10)])"

definition str_int :: "int \<Rightarrow> string" where
  "str_int i = (if i < 0 then CHR ''-'' # str_nat (nat (- i)) else str_nat (nat i))"

subsection \<open>Websocket and logger\<close>

definition log_msg :: "log \<Rightarrow> world \<Rightarrow> world" where
  "log_msg l w = w\<lparr>logs := logs w @ [l]\<rparr>"

definition ws_accept :: "world \<Rightarrow> world" where
  "ws_accept w = w\<lparr>events := events w @ [Accept]\<rparr>"

text \<open>
  \<^verbatim>\<open>ws.receive_text()\<close> and \<^verbatim>\<open>ws.receive_data()\<close>: the call is recorded, then the next frame
  is taken; a peer that has nothing more to send has disconnected, and a frame of the
  other kind is a \<^verbatim>\<open>PayloadTypeError\<close>.
\<close>

definition ws_receive_text :: "world \<Rightarrow> (exn + string) \<times> world" where
  "ws_receive_text w =
     (case inbox w of
        [] \<Rightarrow> (Inl WebSocketDisconnected, w\<lparr>events := events w @ [ReceiveText]\<rparr>)
      | TextFrame t # rest \<Rightarrow> (Inr t, w\<lparr>inbox := rest, events := events w @ [ReceiveText]\<rparr>)
      | DataFrame d # rest \<Rightarrow>
          (Inl PayloadTypeError, w\<lparr>inbox := rest, events := events w @ [ReceiveText]\<rparr>))"

definition ws_receive_data :: "world \<Rightarrow> (exn + bytes) \<times> world" where
  "ws_receive_data w =
     (case inbox w of
        [] \<Rightarrow> (Inl WebSocketDisconnected, w\<lparr>events := events w @ [ReceiveData]\<rparr>)
      | DataFrame d # rest \<Rightarrow> (Inr d, w\<lparr>inbox := rest, events := events w @ [ReceiveData]\<rparr>)
      | TextFrame t # rest \<Rightarrow>
          (Inl PayloadTypeError, w\<lparr>inbox := rest, events := events w @ [ReceiveData]\<rparr>))"

definition ws_close :: "status_code \<Rightarrow> world \<Rightarrow> world" where
  "ws_close c w = w\<lparr>events := events w @ [Close c]\<rparr>"

definition ws_send_text :: "string \<Rightarrow> world \<Rightarrow> world" where
  "ws_send_text t w = w\<lparr>events := events w @ [SendText t]\<rparr>"

declare str_nat.simps [simp del] utf8_decode.simps [simp del]

section \<open>The handler \<^verbatim>\<open>Component.on_websocket\<close>\<close>

subsection \<open>Control messages\<close>

text \<open>
  The inner \<^verbatim>\<open>try\<close> of the handler: the metadata message is received and decoded, then the
  configuration message. The first exception ends the block; which exceptions are caught
  is decided by the caller below.
\<close>

definition receive_control :: "env \<Rightarrow> world \<Rightarrow> (exn + metadata \<times> ws_config) \<times> world" where
  "receive_control E w =
     (let r1 = ws_receive_text (log_msg (Info ''receiving metadata...'') w) in
      case fst r1 of
        Inl e \<Rightarrow> (Inl e, snd r1)
      | Inr t1 \<Rightarrow>
          (case parse_metadata E t1 of
             Inl e \<Rightarrow> (Inl e, snd r1)
           | Inr md \<Rightarrow>
               (let r2 = ws_receive_text
                           (log_msg (Info ''receiving whitesource config...'') (snd r1)) in
                case fst r2 of
                  Inl e \<Rightarrow> (Inl e, snd r2)
                | Inr t2 \<Rightarrow>
                    (case parse_config E t2 of
                       Inl e \<Rightarrow> (Inl e, snd r2)
                     | Inr cfg \<Rightarrow> (Inr (md, cfg), snd r2)))))"

subsection \<open>Receiving the payload\<close>

text \<open>
  \<^verbatim>\<open>
  received = 0
  while received < metadata.length:
      chunk = await ws.receive_data()
      tar_file.write(chunk)
      plogger.info(...)
      received += len(chunk)
  \<close>
  Every turn of the loop takes one frame from the peer, so the loop ends: with the count
  of bytes received, or with the exception of \<^verbatim>\<open>receive_data\<close>.
\<close>

function receive_loop :: "int \<Rightarrow> int \<Rightarrow> world \<Rightarrow> (exn + int) \<times> world" where
  "receive_loop total_length received w =
     (if received < total_length then
        (let r = ws_receive_data w in
         case fst r of
           Inl e \<Rightarrow> (Inl e, snd r)
         | Inr chunk \<Rightarrow>
             receive_loop total_length (received + int (length chunk))
               (log_msg (Progress received total_length)
                  ((snd r)\<lparr>staged := staged (snd r) @ chunk\<rparr>)))
      else (Inr received, w))"
  by pat_completeness auto
termination
  by (relation "measure (\<lambda>(total_length, received, w). length (inbox w))")
     (auto simp: ws_receive_data_def log_msg_def split: list.splits frame.splits)

declare receive_loop.simps [simp del]

subsection \<open>Extraction\<close>

text \<open>
  \<^verbatim>\<open>
  while tar_info := f.next():
      f.extract(tar_info, path=..., set_attrs=False)
  \<close>
  The loop stops at the first exception, of \<^verbatim>\<open>next\<close> or of \<^verbatim>\<open>extract\<close>, and leaves what
  was extracted before it.
\<close>

fun extract_members :: "tar_step list \<Rightarrow> string \<Rightarrow> fs \<Rightarrow> exn option \<times> fs" where
  "extract_members [] path fs = (None, fs)"
| "extract_members (Member m # rest) path fs = extract_members rest path (fs_extract m path fs)"
| "extract_members (Faulty m e # rest) path fs = (Some e, fs)"
| "extract_members (Broken e # rest) path fs = (Some e, fs)"

text \<open>\<^verbatim>\<open>tarfile.open(name, mode='r|*', bufsize=1024)\<close> on a file of the file system.\<close>

definition open_tar_file :: "env \<Rightarrow> string \<Rightarrow> fs \<Rightarrow> exn + tar_step list" where
  "open_tar_file E p fs =
     (case fs_lookup (resolve p) fs of
        None \<Rightarrow> Inl FileNotFoundError
      | Some Dir \<Rightarrow> Inl IsADirectoryError
      | Some (File b) \<Rightarrow> untar E b)"

text \<open>\<^verbatim>\<open>os.remove(path)\<close>.\<close>

definition os_remove :: "string \<Rightarrow> fs \<Rightarrow> exn + fs" where
  "os_remove p fs =
     (case fs_lookup (resolve p) fs of
        None \<Rightarrow> Inl FileNotFoundError
      | Some Dir \<Rightarrow> Inl IsADirectoryError
      | Some (File b) \<Rightarrow> Inr (fs_remove (resolve p) fs))"

text \<open>
  The directory an inner archive is extracted into:
  \<^verbatim>\<open>os.path.join(tmp_dir, file.replace('.tar', ''))\<close>.
\<close>

definition layer_dir :: "env \<Rightarrow> string \<Rightarrow> string" where
  "layer_dir E file = posix_join (tmp_dir E) (str_replace ''.tar'' [] file)"

text \<open>
  \<^verbatim>\<open>
  for file in os.listdir(tmp_dir):
      if file.endswith('.tar'):
          with tarfile.open(os.path.join(tmp_dir, file), mode='r|*', bufsize=1024) as f:
              try:
                  while tar_info := f.next():
                      f.extract(tar_info, path=os.path.join(tmp_dir, file.replace('.tar', '')),
                                set_attrs=False)
              except (tarfile.StreamError, KeyError) as e:
                  ... plogger.warn(...)
          os.remove(os.path.join(tmp_dir, file))
  \<close>
  The \<^verbatim>\<open>try\<close> encloses the \<^verbatim>\<open>while\<close> loop. The listing is taken once, before the first
  inner archive is opened. \<open>expand_layer\<close> is one turn of the \<^verbatim>\<open>for\<close> loop,
  \<open>remove_layer\<close> its last statement, and \<open>expand_layers\<close> the loop over the listing;
  an exception that is not caught ends the loop.
\<close>

definition remove_layer :: "env \<Rightarrow> string \<Rightarrow> world \<Rightarrow> exn option \<times> world" where
  "remove_layer E file w =
     (case os_remove (posix_join (tmp_dir E) file) (files w) of
        Inl e \<Rightarrow> (Some e, w)
      | Inr fs' \<Rightarrow> (None, w\<lparr>files := fs'\<rparr>))"

definition expand_layer :: "env \<Rightarrow> string \<Rightarrow> world \<Rightarrow> exn option \<times> world" where
  "expand_layer E file w =
     (if endswith ''.tar'' file then
        (case open_tar_file E (posix_join (tmp_dir E) file) (files w) of
           Inl e \<Rightarrow> (Some e, w)
         | Inr steps \<Rightarrow>
             (let r = extract_members steps (layer_dir E file) (files w);
                  w1 = w\<lparr>files := snd r\<rparr>
              in case fst r of
                   None \<Rightarrow> remove_layer E file w1
                 | Some e \<Rightarrow>
                     if e = StreamError
                     then remove_layer E file
                            (log_msg (Warn ''skipping duplicate (probably symlink)'') w1)
                     else if e = KeyError
                     then remove_layer E file (log_msg (Warn ''linkname not found, skipping'') w1)
                     else (Some e, w1)))
      else (None, w))"

fun expand_layers :: "env \<Rightarrow> string list \<Rightarrow> world \<Rightarrow> exn option \<times> world" where
  "expand_layers E [] w = (None, w)"
| "expand_layers E (file # rest) w =
     (let r = expand_layer E file w in
      case fst r of
        Some e \<Rightarrow> (Some e, snd r)
      | None \<Rightarrow> expand_layers E rest (snd r))"

text \<open>
  The body of the \<^verbatim>\<open>try\<close> around both passes: the staged stream is opened and extracted
  into \<^verbatim>\<open>tmp_dir\<close>, then the inner archives at its top level are expanded.
\<close>

definition extract_archives :: "env \<Rightarrow> world \<Rightarrow> exn option \<times> world" where
  "extract_archives E w =
     (case untar E (staged w) of
        Inl e \<Rightarrow> (Some e, w)
      | Inr steps \<Rightarrow>
          (let r = extract_members steps (tmp_dir E) (files w);
               w1 = w\<lparr>files := snd r\<rparr>
           in case fst r of
                Some e \<Rightarrow> (Some e, w1)
              | None \<Rightarrow> expand_layers E (listdir (resolve (tmp_dir E)) (files w1)) w1))"

section \<open>The agent: \<^verbatim>\<open>util.py\<close>\<close>

definition day :: int where
  "day = 24 * 3600 * 1000000"

text \<open>
  \<^verbatim>\<open>pull_latest_wss_agent\<close>: any exception inside the \<^verbatim>\<open>try\<close> is logged, the temporary
  file is unlinked and \<^verbatim>\<open>RuntimeError\<close> is raised; when the temporary file could not be
  created, \<^verbatim>\<open>tmp_file\<close> is still \<^verbatim>\<open>None\<close> and \<^verbatim>\<open>tmp_file.name\<close> in the handler raises
  \<^verbatim>\<open>AttributeError\<close> instead.
\<close>

definition pull_latest_wss_agent :: "env \<Rightarrow> world \<Rightarrow> exn option \<times> world" where
  "pull_latest_wss_agent E w =
     (if \<not> tmpfile_ok E
      then (Some AttributeError, log_msg (Error ''an error occured while pulling ws agent'') w)
      else case requests_get E of
             Inl e \<Rightarrow>
               (Some RuntimeError, log_msg (Error ''an error occured while pulling ws agent'') w)
           | Inr content \<Rightarrow>
               (None,
                log_msg (Info ''ws agent pulled successfully.'')
                  ((log_msg (Info ''agent downloaded. Moving it to tmp dir...'') w)
                     \<lparr>agent := Some (now w, content)\<rparr>)))"

text \<open>
  \<^verbatim>\<open>update_or_download_agent\<close>. Starting the daemon thread is counted in \<open>refreshes\<close>; the
  thread's own run is \<open>background_refresh\<close>, whose exception ends with the thread.
\<close>

definition update_or_download_agent :: "env \<Rightarrow> world \<Rightarrow> exn option \<times> world" where
  "update_or_download_agent E w =
     (case agent w of
        Some (mtime, content) \<Rightarrow>
          if mtime < now w - day
          then (None,
                (log_msg (Info ''ws agent is older than 24 hours. Agent will be updated...'') w)
                   \<lparr>refreshes := refreshes w + 1\<rparr>)
          else (None,
                log_msg
                  (Info ''wss agent is up to date and present on file system. Using this one...'')
                  w)
      | None \<Rightarrow>
          (let r = pull_latest_wss_agent E
                     (log_msg (Info ''wss agent not found on file system. Pulling it now...'') w)
           in case fst r of
                None \<Rightarrow> (None, snd r)
              | Some e \<Rightarrow>
                  if e = HTTPError
                  then (None,
                        log_msg (Error ''could not download ws agent. Keeping the current one...'')
                          (snd r))
                  else (Some e, snd r)))"

definition background_refresh :: "env \<Rightarrow> world \<Rightarrow> world" where
  "background_refresh E w = snd (pull_latest_wss_agent E w)"

text \<open>
  \<^verbatim>\<open>get_wss_agent_hardlink\<close>: \<^verbatim>\<open>os.link\<close> needs its source and refuses an existing
  destination.
\<close>

definition get_wss_agent_hardlink :: "env \<Rightarrow> string \<Rightarrow> world \<Rightarrow> (exn + string) \<times> world" where
  "get_wss_agent_hardlink E dir w =
     (let r = update_or_download_agent E w;
          dst = posix_join dir (wss_agent_name E)
      in case fst r of
           Some e \<Rightarrow> (Inl e, snd r)
         | None \<Rightarrow>
             (case agent (snd r) of
                None \<Rightarrow> (Inl FileNotFoundError, snd r)
              | Some (mtime, content) \<Rightarrow>
                  if fs_lookup (resolve dst) (files (snd r)) \<noteq> None
                  then (Inl FileExistsError, snd r)
                  else (Inr dst,
                        (snd r)\<lparr>files := fs_write (resolve dst) (File content) (files (snd r))\<rparr>)))"

section \<open>Running the agent\<close>

definition generate_config :: "env \<Rightarrow> string \<Rightarrow> string \<Rightarrow> world \<Rightarrow> exn option \<times> world" where
  "generate_config E wss_agent_dir java w =
     (let args = [java, ''-jar'', posix_join wss_agent_dir (wss_agent_name E), ''-detect''];
          w1 = (log_msg (Info ''generating config'') w)\<lparr>runs := runs w @ [args]\<rparr>
      in case subprocess_run E args (files w1) of
           Inl e \<Rightarrow> (Some e, w1)
         | Inr result \<Rightarrow> (None, w1))"

definition add_configuration :: "ws_config \<Rightarrow> string" where
  "add_configuration cfg =
     concat (map (\<lambda>e. CHR 0x0A # e)
       [''requesterEmail='' @ requesterEmail cfg,
        ''go.collectDependenciesAtRuntime=true'',
        ''failErrorLevel=ALL'',
        ''fileSystemScan=true'',
        ''resolveAllDependencies=true'',
        ''python.installVirtualEnv=true''])"

definition extra_configuration :: "ws_config \<Rightarrow> string" where
  "extra_configuration cfg =
     (case extraWsConfig cfg of
        None \<Rightarrow> []
      | Some kvs \<Rightarrow> concat (map (\<lambda>(k, v). CHR 0x0A # k @ ''='' @ v) kvs))"

definition run_whitesource_scan ::
  "env \<Rightarrow> string \<Rightarrow> string \<Rightarrow> string \<Rightarrow> ws_config \<Rightarrow> string \<Rightarrow> world
     \<Rightarrow> (exn + completed_process) \<times> world" where
  "run_whitesource_scan E wss_agent_dir component_path java cfg config_path w =
     (let args = [java, ''-Xms256m'', ''-Xmx512m'',
                  ''-jar'', posix_join wss_agent_dir (wss_agent_name E),
                  ''-c'', config_path,
                  ''-d'', component_path,
                  ''-apiKey'', apiKey cfg,
                  ''-userKey'', userKey cfg,
                  ''-wss.url'', wssUrl cfg,
                  ''-productToken'', productToken cfg,
                  ''-project'', projectName cfg]
      in (subprocess_run E args (files w), w\<lparr>runs := runs w @ [args]\<rparr>))"

definition scan_component ::
  "env \<Rightarrow> string \<Rightarrow> string \<Rightarrow> ws_config \<Rightarrow> world \<Rightarrow> (exn + completed_process) \<times> world" where
  "scan_component E wss_agent_dir component_path cfg w =
     (let r = generate_config E wss_agent_dir (java_path E) w in
      case fst r of
        Some e \<Rightarrow> (Inl e, snd r)
      | None \<Rightarrow>
          run_whitesource_scan E wss_agent_dir component_path (java_path E) cfg
            (posix_join wss_agent_dir ''wss-generated-file.config'')
            (log_msg (Info ''agent start'')
               ((snd r)\<lparr>config_file :=
                   config_file (snd r) @ add_configuration cfg @ extra_configuration cfg\<rparr>)))"

text \<open>
  The text reported to the client: \<^verbatim>\<open>stdout\<close> decoded when the exit code is 0, otherwise
  \<^verbatim>\<open>stderr\<close> decoded followed by \<^verbatim>\<open>stdout\<close> decoded. \<open>None\<close> is the \<^verbatim>\<open>UnicodeDecodeError\<close>
  of \<^verbatim>\<open>decode('utf-8')\<close>.
\<close>

definition agent_log_str :: "completed_process \<Rightarrow> pystr option" where
  "agent_log_str result =
     (if returncode result = 0 then utf8_decode (stdout result)
      else (case utf8_decode (stderr result) of
              None \<Rightarrow> None
            | Some err \<Rightarrow>
                (case utf8_decode (stdout result) of
                   None \<Rightarrow> None
                 | Some out \<Rightarrow> Some (err @ out))))"

definition build_scan_result_response :: "bool \<Rightarrow> pystr \<Rightarrow> scan_result" where
  "build_scan_result_response succ msg = \<lparr>successful = succ, message = msg\<rparr>"

text \<open>From \<^verbatim>\<open>plogger.info('scan start')\<close> to the two \<^verbatim>\<open>send_text\<close> calls.\<close>

definition scan_and_respond :: "env \<Rightarrow> ws_config \<Rightarrow> world \<Rightarrow> outcome \<times> world" where
  "scan_and_respond E cfg w =
     (let r1 = get_wss_agent_hardlink E (tmp_dir E) (log_msg (Info ''scan start'') w) in
      case fst r1 of
        Inl e \<Rightarrow> (Raised e, snd r1)
      | Inr link \<Rightarrow>
          (let r2 = scan_component E (tmp_dir E) (tmp_dir E) cfg (snd r1) in
           case fst r2 of
             Inl e \<Rightarrow> (Raised e, snd r2)
           | Inr result \<Rightarrow>
               (let w3 = (snd r2)\<lparr>files := fs_remove (resolve link) (files (snd r2))\<rparr> in
                case agent_log_str result of
                  None \<Rightarrow> (Raised UnicodeDecodeError, w3)
                | Some text \<Rightarrow>
                    (Returned,
                     ws_send_text
                       (json_dumps E
                          (build_scan_result_response
                             (if returncode result = 0 then True else False) text))
                       (ws_send_text (str_int (returncode result)) w3)))))"

section \<open>The session\<close>

text \<open>Leaving the \<^verbatim>\<open>with tempfile.TemporaryDirectory()\<close> block removes the scratch directory.\<close>

definition cleanup :: "env \<Rightarrow> world \<Rightarrow> world" where
  "cleanup E w = w\<lparr>files := filter (\<lambda>(p, _). \<not> inside (resolve (tmp_dir E)) p) (files w)\<rparr>"

text \<open>
  The body of the \<^verbatim>\<open>with tempfile.TemporaryDirectory()\<close> block, before its directory is
  removed.
\<close>

definition transfer :: "env \<Rightarrow> metadata \<Rightarrow> ws_config \<Rightarrow> world \<Rightarrow> outcome \<times> world" where
  "transfer E md cfg w =
     (let r = receive_loop (length' md) 0 (log_msg (Info ''transfer start'') w) in
      case fst r of
        Inl e \<Rightarrow> (Raised e, snd r)
      | Inr received \<Rightarrow>
          (let x = extract_archives E
                     (log_msg (Info ''transfer done'')
                        (log_msg (Progress received (length' md)) (snd r)))
           in case fst x of
                Some e \<Rightarrow>
                  if e = ReadError \<or> e = UnicodeDecodeError \<or> e = InvalidHeaderError
                  then (Returned, ws_close BINARY_CORRUPTED (snd x))
                  else (Raised e, snd x)
              | None \<Rightarrow> scan_and_respond E cfg (snd x)))"

text \<open>The body of the outer \<^verbatim>\<open>try\<close> of \<^verbatim>\<open>on_websocket\<close>.\<close>

definition session :: "env \<Rightarrow> world \<Rightarrow> outcome \<times> world" where
  "session E w =
     (let r = receive_control E (ws_accept w) in
      case fst r of
        Inl e \<Rightarrow>
          if e = JSONDecodeError \<or> e = MissingValueError
          then (Returned, ws_close CONTRACT_VIOLATION (snd r))
          else (Raised e, snd r)
      | Inr (md, cfg) \<Rightarrow>
          if chunkSize md > length' md
          then (Returned, ws_close CHUNK_SIZE_TOO_BIG (snd r))
          else (let x = transfer E md cfg (snd r) in (fst x, cleanup E (snd x))))"

text \<open>\<^verbatim>\<open>on_websocket\<close>: \<^verbatim>\<open>except falcon.WebSocketDisconnected: return\<close>.\<close>

definition on_websocket :: "env \<Rightarrow> world \<Rightarrow> outcome \<times> world" where
  "on_websocket E w =
     (let r = session E w in
      if fst r = Raised WebSocketDisconnected then (Returned, snd r) else r)"

section \<open>Notions used to state the properties\<close>

text \<open>
  The chunks the receive loop takes from the peer when it has \<open>r\<close> bytes and waits for
  \<open>tot\<close>: none when \<open>r\<close> has reached \<open>tot\<close>; otherwise the chunks before the last one leave
  the count below \<open>tot\<close> and the last one carries it to \<open>tot\<close> or past it.
\<close>

definition fills :: "int \<Rightarrow> int \<Rightarrow> bytes list \<Rightarrow> bool" where
  "fills tot r chunks =
     (if chunks = [] then tot \<le> r
      else r + int (length (concat (butlast chunks))) < tot
           \<and> tot \<le> r + int (length (concat chunks)))"

text \<open>The progress lines the loop logs while it takes these chunks.\<close>

fun progress_lines :: "int \<Rightarrow> int \<Rightarrow> bytes list \<Rightarrow> log list" where
  "progress_lines tot r [] = []"
| "progress_lines tot r (c # cs) = Progress r tot # progress_lines tot (r + int (length c)) cs"





subsection \<open>A concrete environment\<close>

text \<open>
  One environment and one initial state on which the model is evaluated. The control
  messages are short tokens; the archive \<open>[1, 2, 3]\<close> holds an inner archive
  \<^verbatim>\<open>layer.tar\<close> and a loose file, the inner archive \<open>[7]\<close> holds one file, and any other
  stream is rejected when opened.
\<close>

definition sample_config :: ws_config where
  "sample_config =
     \<lparr>projectName = ''proj'', apiKey = ''key'', userKey = ''user'', wssUrl = ''url'',
      productToken = ''token'', requesterEmail = ''mail'', extraWsConfig = None\<rparr>"

definition sample_metadata :: "string \<Rightarrow> exn + metadata" where
  "sample_metadata t =
     (if t = ''m32'' then Inr \<lparr>chunkSize = 2, length' = 3\<rparr>
      else if t = ''m53'' then Inr \<lparr>chunkSize = 5, length' = 3\<rparr>
      else if t = ''m00'' then Inr \<lparr>chunkSize = 0, length' = 0\<rparr>
      else if t = ''{}'' then Inl MissingValueError
      else Inl JSONDecodeError)"

definition sample_parse_config :: "string \<Rightarrow> exn + ws_config" where
  "sample_parse_config t =
     (if t = ''cfg'' then Inr sample_config
      else if t = ''{}'' then Inl MissingValueError
      else Inl JSONDecodeError)"

definition sample_untar :: "bytes \<Rightarrow> exn + tar_step list" where
  "sample_untar b =
     (if b = [1, 2, 3]
      then Inr [Member \<lparr>name = ''layer.tar'', body = File [7]\<rparr>,
                Member \<lparr>name = ''app/x'', body = File [9]\<rparr>]
      else if b = [7] then Inr [Member \<lparr>name = ''f'', body = File []\<rparr>]
      else Inl ReadError)"

definition sample_json :: "scan_result \<Rightarrow> string" where
  "sample_json r = (if successful r then ''ok:'' else ''failed:'') @ map char_of (message r)"

definition sample_env :: env where
  "sample_env =
     \<lparr>parse_metadata = sample_metadata,
      parse_config = sample_parse_config,
      untar = sample_untar,
      subprocess_run = (\<lambda>args fs. Inr \<lparr>returncode = 0, stdout = [0x6F, 0x6B], stderr = []\<rparr>),
      json_dumps = sample_json,
      requests_get = Inr [5],
      tmpfile_ok = True,
      tmp_dir = ''/t'',
      wss_agent_name = ''agent.jar'',
      java_path = ''java''\<rparr>"

text \<open>
  Three more archive libraries for the same bytes: in the first the inner archive is
  named \<^verbatim>\<open>a.tar.b.tar\<close>; in the second the inner archive has a member whose extraction
  raises \<^verbatim>\<open>StreamError\<close> between two sound members; in the third the outer archive has a
  member with an absolute name and the inner archive a member whose name climbs with
  \<^verbatim>\<open>..\<close>.
\<close>

definition untar_interior :: "bytes \<Rightarrow> exn + tar_step list" where
  "untar_interior b =
     (if b = [1, 2, 3] then Inr [Member \<lparr>name = ''a.tar.b.tar'', body = File [7]\<rparr>]
      else if b = [7] then Inr [Member \<lparr>name = ''f'', body = File []\<rparr>]
      else Inl ReadError)"

definition untar_faulty :: "bytes \<Rightarrow> exn + tar_step list" where
  "untar_faulty b =
     (if b = [1, 2, 3] then Inr [Member \<lparr>name = ''layer.tar'', body = File [7]\<rparr>]
      else if b = [7]
      then Inr [Member \<lparr>name = ''a'', body = File [10]\<rparr>,
                Faulty \<lparr>name = ''l'', body = File []\<rparr> StreamError,
                Member \<lparr>name = ''b'', body = File [11]\<rparr>]
      else Inl ReadError)"


definition sample_world :: "frame list \<Rightarrow> world" where
  "sample_world frames =
     \<lparr>inbox = frames, events = [], logs = [], staged = [], files = [], agent = None,
      now = 0, refreshes = 0, runs = [], config_file = []\<rparr>"

section \<open>Reading the control messages\<close>

lemma control_ok:
  assumes "inbox w = TextFrame t1 # TextFrame t2 # rest"
    and "parse_metadata E t1 = Inr md" and "parse_config E t2 = Inr cfg"
  shows "receive_control E (ws_accept w) =
           (Inr (md, cfg),
            w\<lparr>inbox := rest, events := events w @ [Accept, ReceiveText, ReceiveText],
               logs := logs w @ [Info ''receiving metadata...'',
                                 Info ''receiving whitesource config...'']\<rparr>)"
  using assms
  by (simp add: receive_control_def ws_accept_def ws_receive_text_def log_msg_def)



section \<open>Protocol contract errors\<close>


lemma sample_env_simps:
  "parse_metadata sample_env = sample_metadata"
  "parse_config sample_env = sample_parse_config"
  "untar sample_env = sample_untar"
  "tmp_dir sample_env = ''/t''"
  by (simp_all add: sample_env_def)


section \<open>What each phase does to the websocket and the log\<close>

lemma receive_loop_events:
  "\<exists>k. events (snd (receive_loop tot r w)) = events w @ replicate k ReceiveData
       \<and> (r < tot \<longrightarrow> 0 < k)"
proof (induction tot r w rule: receive_loop.induct)
  case (1 tot r w)
  show ?case
  proof (cases "r < tot")
    case False
    then show ?thesis by (simp add: receive_loop.simps [of tot r w])
  next
    case True
    have ev: "events (snd (ws_receive_data w)) = events w @ [ReceiveData]"
      by (simp add: ws_receive_data_def split: list.splits frame.splits)
    show ?thesis
    proof (cases "fst (ws_receive_data w)")
      case (Inl e)
      with True ev show ?thesis
        by (subst receive_loop.simps) (auto simp: Let_def intro: exI [of _ 1])
    next
      case (Inr chunk)
      from "1.IH" [OF True refl Inr] obtain k where
        "events (snd (receive_loop tot (r + int (length chunk))
            (log_msg (Progress r tot)
               ((snd (ws_receive_data w))\<lparr>staged := staged (snd (ws_receive_data w)) @ chunk\<rparr>))))
         = events w @ [ReceiveData] @ replicate k ReceiveData"
        by (auto simp: log_msg_def ev)
      with True Inr show ?thesis
        by (subst receive_loop.simps) (auto simp: Let_def intro: exI [of _ "Suc k"])
    qed
  qed
qed

lemma receive_loop_logs:
  "\<exists>ls. logs (snd (receive_loop tot r w)) = logs w @ ls"
proof (induction tot r w rule: receive_loop.induct)
  case (1 tot r w)
  show ?case
  proof (cases "r < tot")
    case False
    then show ?thesis by (simp add: receive_loop.simps [of tot r w])
  next
    case True
    have lg: "logs (snd (ws_receive_data w)) = logs w"
      by (simp add: ws_receive_data_def split: list.splits frame.splits)
    show ?thesis
    proof (cases "fst (ws_receive_data w)")
      case (Inl e)
      with True lg show ?thesis
        by (subst receive_loop.simps) (auto simp: Let_def)
    next
      case (Inr chunk)
      from "1.IH" [OF True refl Inr] lg True Inr show ?thesis
        by (subst receive_loop.simps) (auto simp: Let_def log_msg_def)
    qed
  qed
qed

lemma remove_layer_frame:
  "events (snd (remove_layer E f w)) = events w" "logs (snd (remove_layer E f w)) = logs w"
  by (simp_all add: remove_layer_def split: sum.splits)

lemma expand_layer_events: "events (snd (expand_layer E f w)) = events w"
  by (simp add: expand_layer_def Let_def remove_layer_frame log_msg_def
        split: sum.splits option.splits)

lemma expand_layer_logs: "\<exists>ls. logs (snd (expand_layer E f w)) = logs w @ ls"
  by (simp add: expand_layer_def Let_def remove_layer_frame log_msg_def
        split: sum.splits option.splits)

lemma expand_layers_events: "events (snd (expand_layers E fs w)) = events w"
proof (induction fs arbitrary: w)
  case Nil
  show ?case by simp
next
  case (Cons f fs)
  show ?case
    by (cases "fst (expand_layer E f w)") (simp_all add: Let_def Cons.IH expand_layer_events)
qed

lemma expand_layers_logs: "\<exists>ls. logs (snd (expand_layers E fs w)) = logs w @ ls"
proof (induction fs arbitrary: w)
  case Nil
  show ?case by simp
next
  case (Cons f fs)
  obtain l1 where l1: "logs (snd (expand_layer E f w)) = logs w @ l1"
    using expand_layer_logs by blast
  obtain l2 where "logs (snd (expand_layers E fs (snd (expand_layer E f w))))
                     = logs (snd (expand_layer E f w)) @ l2"
    using Cons.IH by blast
  with l1 show ?case
    by (cases "fst (expand_layer E f w)") (simp_all add: Let_def)
qed

lemma extract_archives_events: "events (snd (extract_archives E w)) = events w"
  by (simp add: extract_archives_def Let_def expand_layers_events split: sum.splits option.splits)

lemma extract_archives_logs: "\<exists>ls. logs (snd (extract_archives E w)) = logs w @ ls"
proof (cases "untar E (staged w)")
  case (Inl e)
  then show ?thesis by (simp add: extract_archives_def)
next
  case (Inr steps)
  let ?w1 = "w\<lparr>files := snd (extract_members steps (tmp_dir E) (files w))\<rparr>"
  obtain ls where "logs (snd (expand_layers E (listdir (resolve (tmp_dir E)) (files ?w1)) ?w1))
                     = logs ?w1 @ ls"
    using expand_layers_logs by blast
  with Inr show ?thesis
    by (cases "fst (extract_members steps (tmp_dir E) (files w))")
       (simp_all add: extract_archives_def Let_def)
qed

lemma update_events: "events (snd (update_or_download_agent E w)) = events w"
  by (simp add: update_or_download_agent_def pull_latest_wss_agent_def log_msg_def Let_def
        split: option.splits sum.splits prod.splits)

lemma update_logs: "\<exists>ls. logs (snd (update_or_download_agent E w)) = logs w @ ls"
  by (simp add: update_or_download_agent_def pull_latest_wss_agent_def log_msg_def Let_def
        split: option.splits sum.splits prod.splits)

lemma hardlink_events: "events (snd (get_wss_agent_hardlink E d w)) = events w"
  by (simp add: get_wss_agent_hardlink_def Let_def update_events split: option.splits prod.splits)

lemma hardlink_logs: "\<exists>ls. logs (snd (get_wss_agent_hardlink E d w)) = logs w @ ls"
  using update_logs [of E w]
  by (auto simp: get_wss_agent_hardlink_def Let_def split: option.splits prod.splits)

lemma scan_component_events: "events (snd (scan_component E a b cfg w)) = events w"
  by (simp add: scan_component_def generate_config_def run_whitesource_scan_def log_msg_def Let_def
        split: option.splits sum.splits)

lemma scan_component_logs: "\<exists>ls. logs (snd (scan_component E a b cfg w)) = logs w @ ls"
  by (simp add: scan_component_def generate_config_def run_whitesource_scan_def log_msg_def Let_def
        split: option.splits sum.splits)

lemma scan_and_respond_events:
  "\<exists>ss. events (snd (scan_and_respond E cfg w)) = events w @ ss
        \<and> (\<forall>x\<in>set ss. \<exists>t. x = SendText t)"
  by (auto simp: scan_and_respond_def Let_def hardlink_events scan_component_events
        ws_send_text_def log_msg_def split: sum.splits option.splits)

lemma scan_and_respond_logs:
  "\<exists>ls. logs (snd (scan_and_respond E cfg w)) = logs w @ Info ''scan start'' # ls"
proof -
  let ?w0 = "log_msg (Info ''scan start'') w"
  obtain l1 where l1: "logs (snd (get_wss_agent_hardlink E (tmp_dir E) ?w0)) = logs ?w0 @ l1"
    using hardlink_logs by blast
  obtain l2 where l2: "logs (snd (scan_component E (tmp_dir E) (tmp_dir E) cfg
                               (snd (get_wss_agent_hardlink E (tmp_dir E) ?w0))))
                       = logs (snd (get_wss_agent_hardlink E (tmp_dir E) ?w0)) @ l2"
    using scan_component_logs by blast
  show ?thesis
    using l1 l2
    by (auto simp: scan_and_respond_def Let_def ws_send_text_def log_msg_def
          split: sum.splits option.splits)
qed

lemma transfer_events:
  "\<exists>evs. events (snd (transfer E md cfg w)) = events w @ evs
        \<and> Close CHUNK_SIZE_TOO_BIG \<notin> set evs
        \<and> (0 < length' md \<longrightarrow> (\<exists>evs'. evs = ReceiveData # evs'))"
proof -
  let ?w0 = "log_msg (Info ''transfer start'') w"
  let ?r = "receive_loop (length' md) 0 ?w0"
  obtain k where k: "events (snd ?r) = events w @ replicate k ReceiveData"
      "0 < length' md \<longrightarrow> 0 < k"
    using receive_loop_events [of "length' md" 0 ?w0] by (auto simp: log_msg_def)
  define rd where "rd = replicate k ReceiveData"
  have rd: "events (snd ?r) = events w @ rd" "Close CHUNK_SIZE_TOO_BIG \<notin> set rd"
    "0 < length' md \<Longrightarrow> \<exists>t. rd = ReceiveData # t"
    using k by (auto simp: rd_def) (cases k, auto)
  show ?thesis
  proof (cases "fst ?r")
    case (Inl e)
    with rd show ?thesis
      by (intro exI [of _ rd]) (auto simp: transfer_def Let_def)
  next
    case (Inr n)
    let ?w1 = "log_msg (Info ''transfer done'') (log_msg (Progress n (length' md)) (snd ?r))"
    let ?x = "extract_archives E ?w1"
    have ex: "events (snd ?x) = events w @ rd"
      using rd(1) by (simp add: extract_archives_events log_msg_def)
    show ?thesis
    proof (cases "fst ?x")
      case (Some e)
      show ?thesis
      proof (cases "e = ReadError \<or> e = UnicodeDecodeError \<or> e = InvalidHeaderError")
        case True
        with Some Inr ex rd(2,3) show ?thesis
          by (intro exI [of _ "rd @ [Close BINARY_CORRUPTED]"])
             (auto simp: transfer_def Let_def ws_close_def)
      next
        case False
        with Some Inr ex rd(2,3) show ?thesis
          by (intro exI [of _ rd]) (auto simp: transfer_def Let_def)
      qed
    next
      case None
      obtain ss where ss: "events (snd (scan_and_respond E cfg (snd ?x))) = events (snd ?x) @ ss"
          "\<forall>x\<in>set ss. \<exists>t. x = SendText t"
        using scan_and_respond_events by blast
      with None Inr ex rd(2,3) show ?thesis
        by (intro exI [of _ "rd @ ss"]) (auto simp: transfer_def Let_def)
    qed
  qed
qed

lemma transfer_logs:
  "\<exists>ls. logs (snd (transfer E md cfg w)) = logs w @ Info ''transfer start'' # ls"
proof -
  let ?w0 = "log_msg (Info ''transfer start'') w"
  let ?r = "receive_loop (length' md) 0 ?w0"
  obtain l1 where l1: "logs (snd ?r) = logs w @ Info ''transfer start'' # l1"
    using receive_loop_logs [of "length' md" 0 ?w0] by (auto simp: log_msg_def)
  show ?thesis
  proof (cases "fst ?r")
    case (Inl e)
    with l1 show ?thesis by (auto simp: transfer_def Let_def)
  next
    case (Inr n)
    let ?w1 = "log_msg (Info ''transfer done'') (log_msg (Progress n (length' md)) (snd ?r))"
    let ?x = "extract_archives E ?w1"
    obtain l2 where l2: "logs (snd ?x) = logs ?w1 @ l2"
      using extract_archives_logs by blast
    obtain l3 where l3: "logs (snd (scan_and_respond E cfg (snd ?x))) = logs (snd ?x) @ Info ''scan start'' # l3"
      using scan_and_respond_logs by blast
    show ?thesis
      using Inr l1 l2 l3
      by (cases "fst ?x") (auto simp: transfer_def Let_def ws_close_def log_msg_def)
  qed
qed

lemma cleanup_frame:
  "events (cleanup E w) = events w" "logs (cleanup E w) = logs w"
  "inbox (cleanup E w) = inbox w" "staged (cleanup E w) = staged w"
  "runs (cleanup E w) = runs w"
  by (simp_all add: cleanup_def)

lemma on_websocket_snd: "snd (on_websocket E w) = snd (session E w)"
  by (simp add: on_websocket_def Let_def)

lemma session_too_big:
  assumes "inbox w = TextFrame t1 # TextFrame t2 # rest"
    and "parse_metadata E t1 = Inr md" and "parse_config E t2 = Inr cfg"
    and "length' md < chunkSize md"
  shows "on_websocket E w =
           (Returned,
            w\<lparr>inbox := rest,
               events := events w @ [Accept, ReceiveText, ReceiveText, Close CHUNK_SIZE_TOO_BIG],
               logs := logs w @ [Info ''receiving metadata...'',
                                 Info ''receiving whitesource config...'']\<rparr>)"
  using assms(4)
  by (simp add: on_websocket_def session_def control_ok [OF assms(1-3)] ws_close_def)

lemma session_proceeds:
  assumes "inbox w = TextFrame t1 # TextFrame t2 # rest"
    and "parse_metadata E t1 = Inr md" and "parse_config E t2 = Inr cfg"
    and "chunkSize md \<le> length' md"
  shows "session E w =
           (let x = transfer E md cfg
                      (w\<lparr>inbox := rest, events := events w @ [Accept, ReceiveText, ReceiveText],
                         logs := logs w @ [Info ''receiving metadata...'',
                                           Info ''receiving whitesource config...'']\<rparr>)
            in (fst x, cleanup E (snd x)))"
  using assms(4)
  by (simp add: session_def control_ok [OF assms(1-3)])

section \<open>The chunk size check\<close>

text \<open>
  C5. After both control messages are decoded, metadata with \<^verbatim>\<open>chunkSize > length\<close> closes
  the session with \<^verbatim>\<open>CHUNK_SIZE_TOO_BIG\<close>: the handler has accepted and read two text
  messages, it closes and returns, and no payload frame is requested. With
  \<^verbatim>\<open>chunkSize <= length\<close> (equality included) the session goes on to the receiving phase:
  it logs \<^verbatim>\<open>transfer start\<close>, never closes with \<^verbatim>\<open>CHUNK_SIZE_TOO_BIG\<close>, and when the
  declared length is positive its next websocket call requests a payload frame.
\<close>

theorem chunk_size_gate:
  assumes "inbox w = TextFrame t1 # TextFrame t2 # rest"
    and "parse_metadata E t1 = Inr md" and "parse_config E t2 = Inr cfg"
  shows "(length' md < chunkSize md \<longrightarrow>
            on_websocket E w =
              (Returned,
               w\<lparr>inbox := rest,
                  events := events w
                     @ [Accept, ReceiveText, ReceiveText, Close CHUNK_SIZE_TOO_BIG],
                  logs := logs w @ [Info ''receiving metadata...'',
                                    Info ''receiving whitesource config...'']\<rparr>))
       \<and> (chunkSize md \<le> length' md \<longrightarrow>
            (\<exists>evs ls.
               events (snd (on_websocket E w))
                 = events w @ [Accept, ReceiveText, ReceiveText] @ evs
               \<and> Close CHUNK_SIZE_TOO_BIG \<notin> set evs
               \<and> (0 < length' md \<longrightarrow> (\<exists>evs'. evs = ReceiveData # evs'))
               \<and> logs (snd (on_websocket E w))
                 = logs w @ [Info ''receiving metadata...'',
                             Info ''receiving whitesource config...'',
                             Info ''transfer start''] @ ls))"
proof (intro conjI impI)
  assume "length' md < chunkSize md"
  then show "on_websocket E w =
              (Returned,
               w\<lparr>inbox := rest,
                  events := events w
                     @ [Accept, ReceiveText, ReceiveText, Close CHUNK_SIZE_TOO_BIG],
                  logs := logs w @ [Info ''receiving metadata...'',
                                    Info ''receiving whitesource config...'']\<rparr>)"
    by (rule session_too_big [OF assms])
next
  assume le: "chunkSize md \<le> length' md"
  let ?w1 = "w\<lparr>inbox := rest, events := events w @ [Accept, ReceiveText, ReceiveText],
                logs := logs w @ [Info ''receiving metadata...'',
                                  Info ''receiving whitesource config...'']\<rparr>"
  obtain evs where evs: "events (snd (transfer E md cfg ?w1)) = events ?w1 @ evs"
      "Close CHUNK_SIZE_TOO_BIG \<notin> set evs"
      "0 < length' md \<longrightarrow> (\<exists>evs'. evs = ReceiveData # evs')"
    using transfer_events by blast
  obtain ls where ls: "logs (snd (transfer E md cfg ?w1)) = logs ?w1 @ Info ''transfer start'' # ls"
    using transfer_logs by blast
  have "events (snd (on_websocket E w)) = events w @ [Accept, ReceiveText, ReceiveText] @ evs"
    using evs(1) by (simp add: on_websocket_snd session_proceeds [OF assms le] Let_def cleanup_frame)
  moreover have "logs (snd (on_websocket E w))
                 = logs w @ [Info ''receiving metadata...'',
                             Info ''receiving whitesource config...'',
                             Info ''transfer start''] @ ls"
    using ls by (simp add: on_websocket_snd session_proceeds [OF assms le] Let_def cleanup_frame)
  ultimately show "\<exists>evs ls.
               events (snd (on_websocket E w))
                 = events w @ [Accept, ReceiveText, ReceiveText] @ evs
               \<and> Close CHUNK_SIZE_TOO_BIG \<notin> set evs
               \<and> (0 < length' md \<longrightarrow> (\<exists>evs'. evs = ReceiveData # evs'))
               \<and> logs (snd (on_websocket E w))
                 = logs w @ [Info ''receiving metadata...'',
                             Info ''receiving whitesource config...'',
                             Info ''transfer start''] @ ls"
    using evs(2,3) by blast
qed

theorem chunk_size_gate_witness:
  "parse_metadata sample_env ''m53'' = Inr \<lparr>chunkSize = 5, length' = 3\<rparr>
   \<and> parse_metadata sample_env ''m00'' = Inr \<lparr>chunkSize = 0, length' = 0\<rparr>
   \<and> parse_metadata sample_env ''m32'' = Inr \<lparr>chunkSize = 2, length' = 3\<rparr>
   \<and> parse_config sample_env ''cfg'' = Inr sample_config
   \<and> on_websocket sample_env (sample_world [TextFrame ''m53'', TextFrame ''cfg'', DataFrame [1]]) =
       (Returned,
        (sample_world [TextFrame ''m53'', TextFrame ''cfg'', DataFrame [1]])
          \<lparr>inbox := [DataFrame [1]],
           events := [Accept, ReceiveText, ReceiveText, Close CHUNK_SIZE_TOO_BIG],
           logs := [Info ''receiving metadata...'', Info ''receiving whitesource config...'']\<rparr>)
   \<and> (\<exists>evs ls.
         events (snd (on_websocket sample_env (sample_world [TextFrame ''m00'', TextFrame ''cfg''])))
           = [Accept, ReceiveText, ReceiveText] @ evs
         \<and> Close CHUNK_SIZE_TOO_BIG \<notin> set evs
         \<and> logs (snd (on_websocket sample_env (sample_world [TextFrame ''m00'', TextFrame ''cfg''])))
           = [Info ''receiving metadata...'', Info ''receiving whitesource config...'',
              Info ''transfer start''] @ ls)
   \<and> (\<exists>evs ls.
         events (snd (on_websocket sample_env
                        (sample_world [TextFrame ''m32'', TextFrame ''cfg'', DataFrame [1]])))
           = [Accept, ReceiveText, ReceiveText] @ evs
         \<and> Close CHUNK_SIZE_TOO_BIG \<notin> set evs
         \<and> (\<exists>evs'. evs = ReceiveData # evs')
         \<and> logs (snd (on_websocket sample_env
                        (sample_world [TextFrame ''m32'', TextFrame ''cfg'', DataFrame [1]])))
           = [Info ''receiving metadata...'', Info ''receiving whitesource config...'',
              Info ''transfer start''] @ ls)"
  using chunk_size_gate [where w = "sample_world [TextFrame ''m53'', TextFrame ''cfg'', DataFrame [1]]"
          and ?t1.0 = "''m53''" and ?t2.0 = "''cfg''" and rest = "[DataFrame [1]]"
          and E = sample_env and md = "\<lparr>chunkSize = 5, length' = 3\<rparr>" and cfg = sample_config]
        chunk_size_gate [where w = "sample_world [TextFrame ''m00'', TextFrame ''cfg'']"
          and ?t1.0 = "''m00''" and ?t2.0 = "''cfg''" and rest = "[]"
          and E = sample_env and md = "\<lparr>chunkSize = 0, length' = 0\<rparr>" and cfg = sample_config]
        chunk_size_gate [where w = "sample_world [TextFrame ''m32'', TextFrame ''cfg'', DataFrame [1]]"
          and ?t1.0 = "''m32''" and ?t2.0 = "''cfg''" and rest = "[DataFrame [1]]"
          and E = sample_env and md = "\<lparr>chunkSize = 2, length' = 3\<rparr>" and cfg = sample_config]
  by (simp add: sample_env_simps sample_metadata_def sample_parse_config_def sample_world_def)

section \<open>The receive loop\<close>

lemma fills_Cons:
  "fills tot r (c # cs) \<Longrightarrow> r < tot \<and> fills tot (r + int (length c)) cs"
  by (cases cs) (auto simp: fills_def)

lemma receive_data_frame:
  "inbox w = DataFrame c # rest \<Longrightarrow>
   ws_receive_data w = (Inr c, w\<lparr>inbox := rest, events := events w @ [ReceiveData]\<rparr>)"
  by (simp add: ws_receive_data_def)

lemma receive_loop_consumes:
  "inbox w = map DataFrame chunks @ rest \<Longrightarrow> fills tot r chunks \<Longrightarrow>
   receive_loop tot r w =
     (Inr (r + int (length (concat chunks))),
      w\<lparr>inbox := rest,
         events := events w @ replicate (length chunks) ReceiveData,
         logs := logs w @ progress_lines tot r chunks,
         staged := staged w @ concat chunks\<rparr>)"
proof (induction chunks arbitrary: r w)
  case Nil
  then show ?case
    by (simp add: receive_loop.simps [of tot r w] fills_def)
next
  case (Cons c cs)
  from fills_Cons [OF Cons.prems(2)]
  have lt: "r < tot" and f: "fills tot (r + int (length c)) cs" by simp_all
  from Cons.prems(1) have ib: "inbox w = DataFrame c # (map DataFrame cs @ rest)" by simp
  let ?w1 = "log_msg (Progress r tot)
               ((w\<lparr>inbox := map DataFrame cs @ rest, events := events w @ [ReceiveData]\<rparr>)
                  \<lparr>staged := staged w @ c\<rparr>)"
  have step: "receive_loop tot r w = receive_loop tot (r + int (length c)) ?w1"
    using lt by (subst receive_loop.simps) (simp add: receive_data_frame [OF ib])
  have "inbox ?w1 = map DataFrame cs @ rest" by (simp add: log_msg_def)
  from Cons.IH [OF this f] show ?case
    unfolding step by (simp add: log_msg_def replicate_append_same)
qed

lemma receive_loop_returns:
  "receive_loop tot r w = (Inr n, w') \<Longrightarrow>
   \<exists>chunks. inbox w = map DataFrame chunks @ inbox w' \<and> fills tot r chunks
     \<and> staged w' = staged w @ concat chunks \<and> n = r + int (length (concat chunks))"
proof (induction tot r w arbitrary: n w' rule: receive_loop.induct)
  case (1 tot r w)
  show ?case
  proof (cases "r < tot")
    case False
    with "1.prems" have "w' = w" "n = r"
      by (simp_all add: receive_loop.simps [of tot r w])
    with False show ?thesis
      by (intro exI [of _ "[]"]) (simp add: fills_def)
  next
    case True
    show ?thesis
    proof (cases "inbox w")
      case Nil
      with True "1.prems" show ?thesis
        by (simp add: receive_loop.simps [of tot r w] ws_receive_data_def)
    next
      case (Cons fr rest)
      show ?thesis
      proof (cases fr)
        case (TextFrame t)
        with Cons True "1.prems" show ?thesis
          by (simp add: receive_loop.simps [of tot r w] ws_receive_data_def)
      next
        case (DataFrame c)
        with Cons have ib: "inbox w = DataFrame c # rest" by simp
        let ?w1 = "log_msg (Progress r tot)
               ((snd (ws_receive_data w))\<lparr>staged := staged (snd (ws_receive_data w)) @ c\<rparr>)"
        have fr: "fst (ws_receive_data w) = Inr c" by (simp add: receive_data_frame [OF ib])
        from "1.prems" True have "receive_loop tot (r + int (length c)) ?w1 = (Inr n, w')"
          by (subst (asm) receive_loop.simps) (simp add: fr Let_def)
        from "1.IH" [OF True refl fr this] obtain cs where
          cs: "inbox ?w1 = map DataFrame cs @ inbox w'" "fills tot (r + int (length c)) cs"
              "staged w' = staged ?w1 @ concat cs" "n = r + int (length c) + int (length (concat cs))"
          by blast
        have f: "fills tot r (c # cs)"
          using cs(2) True by (cases cs) (auto simp: fills_def)
        show ?thesis
          using cs f ib
          by (intro exI [of _ "c # cs"]) (simp add: log_msg_def receive_data_frame [OF ib])
      qed
    qed
  qed
qed

text \<open>
  C2, amended. When the receive loop ends without an exception, the staging file holds
  exactly the chunks the loop took from the peer, whole and in order: their number of
  bytes is the count \<open>received\<close>, it is at least \<^verbatim>\<open>totalLength\<close>, and without the last
  chunk it is below \<^verbatim>\<open>totalLength\<close>. So the file holds exactly \<^verbatim>\<open>totalLength\<close> bytes when
  the last chunk ends at \<^verbatim>\<open>totalLength\<close>, and more when the last chunk carries the count
  past it: the chunk is written whole.
\<close>

theorem staged_bytes_when_loop_ends:
  assumes "receive_loop tot 0 w = (Inr n, w')" and "staged w = []"
  shows "\<exists>chunks.
           inbox w = map DataFrame chunks @ inbox w'
         \<and> staged w' = concat chunks
         \<and> int (length (staged w')) = n
         \<and> tot \<le> int (length (staged w'))
         \<and> (chunks \<noteq> [] \<longrightarrow> int (length (staged w')) - int (length (last chunks)) < tot)"
proof -
  from receive_loop_returns [OF assms(1)] obtain chunks where
    c: "inbox w = map DataFrame chunks @ inbox w'" "fills tot 0 chunks"
       "staged w' = staged w @ concat chunks" "n = 0 + int (length (concat chunks))"
    by blast
  have "chunks \<noteq> [] \<Longrightarrow> int (length (concat chunks)) - int (length (last chunks)) < tot"
  proof -
    assume ne: "chunks \<noteq> []"
    then have "concat chunks = concat (butlast chunks) @ last chunks"
      by (metis append_butlast_last_id concat.simps(1) concat.simps(2) concat_append append_Nil2)
    then have "int (length (concat chunks)) - int (length (last chunks))
                 = int (length (concat (butlast chunks)))"
      by simp
    with c(2) ne show ?thesis by (simp add: fills_def)
  qed
  moreover have "tot \<le> int (length (concat chunks))"
    using c(2) by (auto simp: fills_def split: if_splits)
  ultimately show ?thesis
    using c assms(2) by (intro exI [of _ chunks]) simp
qed

theorem staged_bytes_when_loop_ends_witness:
  "receive_loop 3 0 (sample_world [DataFrame [1, 2], DataFrame [3], DataFrame [4]])
     = (Inr 3,
        (sample_world [DataFrame [1, 2], DataFrame [3], DataFrame [4]])
          \<lparr>inbox := [DataFrame [4]], events := [ReceiveData, ReceiveData],
           logs := [Progress 0 3, Progress 2 3], staged := [1, 2, 3]\<rparr>)
   \<and> (\<exists>chunks.
          [DataFrame [1, 2], DataFrame [3], DataFrame [4]] = map DataFrame chunks @ [DataFrame [4]]
        \<and> [1, 2, 3] = concat chunks
        \<and> (chunks \<noteq> [] \<longrightarrow> 3 - int (length (last chunks)) < 3))"
proof -
  have run: "receive_loop 3 0 (sample_world [DataFrame [1, 2], DataFrame [3], DataFrame [4]])
     = (Inr 3,
        (sample_world [DataFrame [1, 2], DataFrame [3], DataFrame [4]])
          \<lparr>inbox := [DataFrame [4]], events := [ReceiveData, ReceiveData],
           logs := [Progress 0 3, Progress 2 3], staged := [1, 2, 3]\<rparr>)"
    using receive_loop_consumes [of "sample_world [DataFrame [1, 2], DataFrame [3], DataFrame [4]]"
            "[[1, 2], [3]]" "[DataFrame [4]]" 3 0]
    by (simp add: sample_world_def fills_def)
  from staged_bytes_when_loop_ends [OF run] show ?thesis
    unfolding run by (simp add: sample_world_def)
qed

text \<open>
  The claim as stated fails: with a declared length of 3 and the chunks \<open>[1, 2]\<close> and
  \<open>[3, 4]\<close>, the loop ends with 4 bytes in the staging file.
\<close>

theorem staged_bytes_counterexample:
  "receive_loop 3 0 (sample_world [DataFrame [1, 2], DataFrame [3, 4]])
     = (Inr 4,
        (sample_world [DataFrame [1, 2], DataFrame [3, 4]])
          \<lparr>inbox := [], events := [ReceiveData, ReceiveData],
           logs := [Progress 0 3, Progress 2 3], staged := [1, 2, 3, 4]\<rparr>)
   \<and> length (staged (snd (receive_loop 3 0 (sample_world [DataFrame [1, 2], DataFrame [3, 4]]))))
       \<noteq> 3"
proof -
  have run: "receive_loop 3 0 (sample_world [DataFrame [1, 2], DataFrame [3, 4]])
     = (Inr 4,
        (sample_world [DataFrame [1, 2], DataFrame [3, 4]])
          \<lparr>inbox := [], events := [ReceiveData, ReceiveData],
           logs := [Progress 0 3, Progress 2 3], staged := [1, 2, 3, 4]\<rparr>)"
    using receive_loop_consumes [of "sample_world [DataFrame [1, 2], DataFrame [3, 4]]"
            "[[1, 2], [3, 4]]" "[]" 3 0]
    by (simp add: sample_world_def fills_def)
  show ?thesis unfolding run by simp
qed

section \<open>Faults of the outer stream\<close>








section \<open>A transfer of no bytes\<close>

text \<open>
  C10. With \<^verbatim>\<open>length = 0\<close> and \<^verbatim>\<open>chunkSize = 0\<close> the check passes and the receive loop
  takes no turn: no payload frame is requested and the staging file stays empty. Opening
  the empty stream fails in the library (\<^verbatim>\<open>tarfile\<close> raises \<^verbatim>\<open>ReadError\<close> on an empty
  file), so the session closes with \<^verbatim>\<open>BINARY_CORRUPTED\<close>; the final state is that of the
  start with the three control calls, the close and five log records, a frame that the
  peer may have queued left unread.
\<close>

theorem empty_transfer_is_corrupted:
  assumes "inbox w = TextFrame t1 # TextFrame t2 # rest"
    and "parse_metadata E t1 = Inr md" and "parse_config E t2 = Inr cfg"
    and "length' md = 0" and "chunkSize md = 0"
    and "staged w = []"
    and "untar E [] = Inl e"
    and "e = ReadError \<or> e = UnicodeDecodeError \<or> e = InvalidHeaderError"
  shows "on_websocket E w =
           (Returned,
            cleanup E
              (w\<lparr>inbox := rest,
                 events := events w @ [Accept, ReceiveText, ReceiveText, Close BINARY_CORRUPTED],
                 logs := logs w @ [Info ''receiving metadata...'',
                                   Info ''receiving whitesource config...'',
                                   Info ''transfer start'', Progress 0 0,
                                   Info ''transfer done'']\<rparr>))"
proof -
  let ?w1 = "w\<lparr>inbox := rest, events := events w @ [Accept, ReceiveText, ReceiveText],
                logs := logs w @ [Info ''receiving metadata...'',
                                  Info ''receiving whitesource config...'']\<rparr>"
  have s: "session E w = (let x = transfer E md cfg ?w1 in (fst x, cleanup E (snd x)))"
    by (rule session_proceeds [OF assms(1-3)]) (simp add: assms(4,5))
  have "transfer E md cfg ?w1 =
          (Returned,
           ws_close BINARY_CORRUPTED
             (log_msg (Info ''transfer done'')
                (log_msg (Progress 0 0) (log_msg (Info ''transfer start'') ?w1))))"
    using assms(4,6,7,8)
    by (auto simp: transfer_def receive_loop.simps [of 0 0] extract_archives_def log_msg_def
          Let_def)
  then have a: "on_websocket E w =
          (Returned,
           cleanup E
             (ws_close BINARY_CORRUPTED
                (log_msg (Info ''transfer done'')
                   (log_msg (Progress 0 0) (log_msg (Info ''transfer start'') ?w1)))))"
    by (simp add: on_websocket_def s Let_def)
  have b: "ws_close BINARY_CORRUPTED
                (log_msg (Info ''transfer done'')
                   (log_msg (Progress 0 0) (log_msg (Info ''transfer start'') ?w1)))
       = w\<lparr>inbox := rest,
                 events := events w @ [Accept, ReceiveText, ReceiveText, Close BINARY_CORRUPTED],
                 logs := logs w @ [Info ''receiving metadata...'',
                                   Info ''receiving whitesource config...'',
                                   Info ''transfer start'', Progress 0 0,
                                   Info ''transfer done'']\<rparr>"
    by (rule world.equality) (simp_all add: ws_close_def log_msg_def)
  show ?thesis unfolding a b by (rule refl)
qed

theorem empty_transfer_is_corrupted_witness:
  "parse_metadata sample_env ''m00'' = Inr \<lparr>chunkSize = 0, length' = 0\<rparr>
   \<and> parse_config sample_env ''cfg'' = Inr sample_config
   \<and> untar sample_env [] = Inl ReadError
   \<and> on_websocket sample_env (sample_world [TextFrame ''m00'', TextFrame ''cfg'', DataFrame [1]])
       = (Returned,
          (sample_world [TextFrame ''m00'', TextFrame ''cfg'', DataFrame [1]])
            \<lparr>inbox := [DataFrame [1]],
             events := [Accept, ReceiveText, ReceiveText, Close BINARY_CORRUPTED],
             logs := [Info ''receiving metadata...'', Info ''receiving whitesource config...'',
                      Info ''transfer start'', Progress 0 0, Info ''transfer done'']\<rparr>)"
  using empty_transfer_is_corrupted [where w = "sample_world [TextFrame ''m00'', TextFrame ''cfg'',
            DataFrame [1]]"
          and ?t1.0 = "''m00''" and ?t2.0 = "''cfg''" and rest = "[DataFrame [1]]"
          and E = sample_env and md = "\<lparr>chunkSize = 0, length' = 0\<rparr>" and cfg = sample_config
          and e = ReadError]
  by (simp add: sample_env_simps sample_metadata_def sample_parse_config_def sample_world_def
        sample_untar_def cleanup_def)

section \<open>The agent cache\<close>

lemma update_absent_fetched:
  assumes "agent w = None" and "tmpfile_ok E" and "requests_get E = Inr c"
  shows "update_or_download_agent E w =
           (None,
            w\<lparr>logs := logs w @ [Info ''wss agent not found on file system. Pulling it now...'',
                                Info ''agent downloaded. Moving it to tmp dir...'',
                                Info ''ws agent pulled successfully.''],
               agent := Some (now w, c)\<rparr>)"
proof -
  have "snd (update_or_download_agent E w) =
            w\<lparr>logs := logs w @ [Info ''wss agent not found on file system. Pulling it now...'',
                                Info ''agent downloaded. Moving it to tmp dir...'',
                                Info ''ws agent pulled successfully.''],
               agent := Some (now w, c)\<rparr>"
    using assms
    by (intro world.equality)
       (simp_all add: update_or_download_agent_def pull_latest_wss_agent_def log_msg_def Let_def)
  moreover have "fst (update_or_download_agent E w) = None"
    using assms
    by (simp add: update_or_download_agent_def pull_latest_wss_agent_def log_msg_def Let_def)
  ultimately show ?thesis by (simp add: prod_eq_iff)
qed

lemma update_absent_failed:
  assumes "agent w = None"
    and "x = (if tmpfile_ok E then RuntimeError else AttributeError)"
    and "\<not> tmpfile_ok E \<or> requests_get E = Inl e"
  shows "update_or_download_agent E w =
           (Some x,
            w\<lparr>logs := logs w @ [Info ''wss agent not found on file system. Pulling it now...'',
                                Error ''an error occured while pulling ws agent'']\<rparr>)"
proof -
  have "snd (update_or_download_agent E w) =
            w\<lparr>logs := logs w @ [Info ''wss agent not found on file system. Pulling it now...'',
                                Error ''an error occured while pulling ws agent'']\<rparr>"
    using assms
    by (intro world.equality)
       (auto simp: update_or_download_agent_def pull_latest_wss_agent_def log_msg_def Let_def)
  moreover have "fst (update_or_download_agent E w) = Some x"
    using assms
    by (auto simp: update_or_download_agent_def pull_latest_wss_agent_def log_msg_def Let_def)
  ultimately show ?thesis by (simp add: prod_eq_iff)
qed

lemma update_present:
  assumes "agent w = Some (mtime, c)"
  shows "update_or_download_agent E w =
           (if mtime < now w - day
            then (None,
                  w\<lparr>logs := logs w
                       @ [Info ''ws agent is older than 24 hours. Agent will be updated...''],
                     refreshes := refreshes w + 1\<rparr>)
            else (None,
                  w\<lparr>logs := logs w
                       @ [Info ''wss agent is up to date and present on file system. Using this one...'']\<rparr>))"
  using assms by (simp add: update_or_download_agent_def log_msg_def)

lemma scan_aborts_when_fetch_fails:
  assumes "agent w = None"
    and "x = (if tmpfile_ok E then RuntimeError else AttributeError)"
    and "\<not> tmpfile_ok E \<or> requests_get E = Inl e"
  shows "fst (scan_and_respond E cfg w) = Raised x"
    and "events (snd (scan_and_respond E cfg w)) = events w"
    and "runs (snd (scan_and_respond E cfg w)) = runs w"
proof -
  have a: "agent (log_msg (Info ''scan start'') w) = None"
    using assms(1) by (simp add: log_msg_def)
  note u = update_absent_failed [OF a assms(2,3)]
  show "fst (scan_and_respond E cfg w) = Raised x"
    unfolding scan_and_respond_def get_wss_agent_hardlink_def Let_def u
    by simp
  show "events (snd (scan_and_respond E cfg w)) = events w"
    unfolding scan_and_respond_def get_wss_agent_hardlink_def Let_def u
    by (simp add: log_msg_def)
  show "runs (snd (scan_and_respond E cfg w)) = runs w"
    unfolding scan_and_respond_def get_wss_agent_hardlink_def Let_def u
    by (simp add: log_msg_def)
qed

lemma background_refresh_failed:
  assumes "\<not> tmpfile_ok E \<or> requests_get E = Inl e"
  shows "background_refresh E w
           = w\<lparr>logs := logs w @ [Error ''an error occured while pulling ws agent'']\<rparr>"
  using assms
  by (auto simp: background_refresh_def pull_latest_wss_agent_def log_msg_def)

text \<open>
  C7. \<^verbatim>\<open>update_or_download_agent\<close> has three cases.
  \<^item> The agent file is absent: the agent is pulled before the function returns. When the
    download succeeds the file is present on return; when it fails, the exception of
    \<^verbatim>\<open>pull_latest_wss_agent\<close> (\<^verbatim>\<open>RuntimeError\<close>, or \<^verbatim>\<open>AttributeError\<close> when not even the
    temporary file could be made) reaches the caller, and the scan step of the session
    ends with that exception: nothing is sent and the agent is not run.
  \<^item> The file is present and its modification time is more than 24 hours before now: a
    background thread is started and the function returns at once; the file is untouched
    and the result does not depend on what the download would give.
  \<^item> The file is present and not older than that: the function returns at once, nothing
    is started.
  A background pull that fails leaves the state as it was but for one log record; its
  exception has no caller to reach.
\<close>

theorem ensure_fresh_trichotomy:
  "(agent w = None \<and> tmpfile_ok E \<and> requests_get E = Inr c \<longrightarrow>
      update_or_download_agent E w =
        (None,
         w\<lparr>logs := logs w @ [Info ''wss agent not found on file system. Pulling it now...'',
                             Info ''agent downloaded. Moving it to tmp dir...'',
                             Info ''ws agent pulled successfully.''],
            agent := Some (now w, c)\<rparr>))
   \<and> (agent w = None \<and> (\<not> tmpfile_ok E \<or> requests_get E = Inl e) \<longrightarrow>
      update_or_download_agent E w =
        (Some (if tmpfile_ok E then RuntimeError else AttributeError),
         w\<lparr>logs := logs w @ [Info ''wss agent not found on file system. Pulling it now...'',
                             Error ''an error occured while pulling ws agent'']\<rparr>)
      \<and> fst (scan_and_respond E cfg w)
          = Raised (if tmpfile_ok E then RuntimeError else AttributeError)
      \<and> events (snd (scan_and_respond E cfg w)) = events w
      \<and> runs (snd (scan_and_respond E cfg w)) = runs w)
   \<and> (agent w = Some (mtime, c) \<and> mtime < now w - day \<longrightarrow>
      update_or_download_agent E w =
        (None,
         w\<lparr>logs := logs w @ [Info ''ws agent is older than 24 hours. Agent will be updated...''],
            refreshes := refreshes w + 1\<rparr>))
   \<and> (agent w = Some (mtime, c) \<and> \<not> mtime < now w - day \<longrightarrow>
      update_or_download_agent E w =
        (None,
         w\<lparr>logs := logs w
              @ [Info ''wss agent is up to date and present on file system. Using this one...'']\<rparr>))
   \<and> (\<not> tmpfile_ok E \<or> requests_get E = Inl e \<longrightarrow>
      background_refresh E w'
        = w'\<lparr>logs := logs w' @ [Error ''an error occured while pulling ws agent'']\<rparr>)"
proof (intro conjI impI)
  assume "agent w = None \<and> tmpfile_ok E \<and> requests_get E = Inr c"
  then show "update_or_download_agent E w =
        (None,
         w\<lparr>logs := logs w @ [Info ''wss agent not found on file system. Pulling it now...'',
                             Info ''agent downloaded. Moving it to tmp dir...'',
                             Info ''ws agent pulled successfully.''],
            agent := Some (now w, c)\<rparr>)"
    using update_absent_fetched [of w E c] by simp
next
  assume a: "agent w = None \<and> (\<not> tmpfile_ok E \<or> requests_get E = Inl e)"
  then show "update_or_download_agent E w =
        (Some (if tmpfile_ok E then RuntimeError else AttributeError),
         w\<lparr>logs := logs w @ [Info ''wss agent not found on file system. Pulling it now...'',
                             Error ''an error occured while pulling ws agent'']\<rparr>)"
    using update_absent_failed [of w _ E e, OF _ refl] by blast
  from a show "fst (scan_and_respond E cfg w)
          = Raised (if tmpfile_ok E then RuntimeError else AttributeError)"
    using scan_aborts_when_fetch_fails(1) [of w _ E e cfg, OF _ refl] by blast
  from a show "events (snd (scan_and_respond E cfg w)) = events w"
    using scan_aborts_when_fetch_fails(2) [of w _ E e cfg, OF _ refl] by blast
  from a show "runs (snd (scan_and_respond E cfg w)) = runs w"
    using scan_aborts_when_fetch_fails(3) [of w _ E e cfg, OF _ refl] by blast
next
  assume "agent w = Some (mtime, c) \<and> mtime < now w - day"
  then show "update_or_download_agent E w =
        (None,
         w\<lparr>logs := logs w @ [Info ''ws agent is older than 24 hours. Agent will be updated...''],
            refreshes := refreshes w + 1\<rparr>)"
    using update_present [of w mtime c E] by simp
next
  assume "agent w = Some (mtime, c) \<and> \<not> mtime < now w - day"
  then show "update_or_download_agent E w =
        (None,
         w\<lparr>logs := logs w
              @ [Info ''wss agent is up to date and present on file system. Using this one...'']\<rparr>)"
    using update_present [of w mtime c E] by simp
next
  assume "\<not> tmpfile_ok E \<or> requests_get E = Inl e"
  then show "background_refresh E w'
        = w'\<lparr>logs := logs w' @ [Error ''an error occured while pulling ws agent'']\<rparr>"
    by (rule background_refresh_failed)
qed

theorem ensure_fresh_trichotomy_witness:
  "agent (sample_world []) = None \<and> tmpfile_ok sample_env \<and> requests_get sample_env = Inr [5]
   \<and> update_or_download_agent sample_env (sample_world []) =
        (None,
         (sample_world [])
           \<lparr>logs := [Info ''wss agent not found on file system. Pulling it now...'',
                     Info ''agent downloaded. Moving it to tmp dir...'',
                     Info ''ws agent pulled successfully.''],
            agent := Some (0, [5])\<rparr>)
   \<and> requests_get (sample_env\<lparr>requests_get := Inl HTTPError\<rparr>) = Inl HTTPError
   \<and> update_or_download_agent (sample_env\<lparr>requests_get := Inl HTTPError\<rparr>) (sample_world []) =
        (Some RuntimeError,
         (sample_world [])
           \<lparr>logs := [Info ''wss agent not found on file system. Pulling it now...'',
                     Error ''an error occured while pulling ws agent'']\<rparr>)
   \<and> fst (scan_and_respond (sample_env\<lparr>requests_get := Inl HTTPError\<rparr>) sample_config
            (sample_world [])) = Raised RuntimeError
   \<and> events (snd (scan_and_respond (sample_env\<lparr>requests_get := Inl HTTPError\<rparr>) sample_config
            (sample_world []))) = []
   \<and> background_refresh (sample_env\<lparr>requests_get := Inl HTTPError\<rparr>)
          ((sample_world [])\<lparr>agent := Some (0, [4])\<rparr>)
        = (sample_world [])
            \<lparr>agent := Some (0, [4]),
             logs := [Error ''an error occured while pulling ws agent'']\<rparr>
   \<and> update_or_download_agent sample_env
          ((sample_world [])\<lparr>agent := Some (0, [4]), now := day + 1\<rparr>) =
        (None,
         (sample_world [])
           \<lparr>agent := Some (0, [4]), now := day + 1,
            logs := [Info ''ws agent is older than 24 hours. Agent will be updated...''],
            refreshes := 1\<rparr>)
   \<and> update_or_download_agent sample_env
          ((sample_world [])\<lparr>agent := Some (0, [4]), now := day\<rparr>) =
        (None,
         (sample_world [])
           \<lparr>agent := Some (0, [4]), now := day,
            logs := [Info ''wss agent is up to date and present on file system. Using this one...'']\<rparr>)"
  using ensure_fresh_trichotomy [where w = "sample_world []" and E = sample_env and c = "[5]"]
        ensure_fresh_trichotomy [where w = "sample_world []"
          and E = "sample_env\<lparr>requests_get := Inl HTTPError\<rparr>" and e = HTTPError
          and cfg = sample_config and w' = "(sample_world [])\<lparr>agent := Some (0, [4])\<rparr>"]
        ensure_fresh_trichotomy [where w = "(sample_world [])\<lparr>agent := Some (0, [4]), now := day + 1\<rparr>"
          and E = sample_env and mtime = 0 and c = "[4]"]
        ensure_fresh_trichotomy [where w = "(sample_world [])\<lparr>agent := Some (0, [4]), now := day\<rparr>"
          and E = sample_env and mtime = 0 and c = "[4]"]
  by (simp add: sample_env_def sample_world_def)

section \<open>The result messages\<close>

lemma scan_and_respond_completed:
  assumes "get_wss_agent_hardlink E (tmp_dir E) (log_msg (Info ''scan start'') w) = (Inr link, w1)"
    and "scan_component E (tmp_dir E) (tmp_dir E) cfg w1 = (Inr result, w2)"
  shows "scan_and_respond E cfg w =
           (case agent_log_str result of
              None \<Rightarrow> (Raised UnicodeDecodeError, w2\<lparr>files := fs_remove (resolve link) (files w2)\<rparr>)
            | Some text \<Rightarrow>
                (Returned,
                 ws_send_text
                   (json_dumps E (build_scan_result_response (returncode result = 0) text))
                   (ws_send_text (str_int (returncode result))
                      (w2\<lparr>files := fs_remove (resolve link) (files w2)\<rparr>))))"
  by (simp add: scan_and_respond_def Let_def assms split: option.splits)

text \<open>
  C8, amended. For a completed run of the agent whose captured output decodes as UTF-8
  (\<^verbatim>\<open>stdout\<close>, and \<^verbatim>\<open>stderr\<close> as well when the exit code is not 0), the session sends the
  exit code as a decimal string and then the JSON text of the result, whose
  \<^verbatim>\<open>successful\<close> is true exactly when the exit code is 0 and whose \<^verbatim>\<open>message\<close> is the
  decoded \<^verbatim>\<open>stdout\<close> when the exit code is 0 and the decoded \<^verbatim>\<open>stderr\<close> followed by the
  decoded \<^verbatim>\<open>stdout\<close> otherwise.
\<close>

theorem scan_result_messages:
  assumes "get_wss_agent_hardlink E (tmp_dir E) (log_msg (Info ''scan start'') w) = (Inr link, w1)"
    and "scan_component E (tmp_dir E) (tmp_dir E) cfg w1 = (Inr result, w2)"
    and "utf8_decode (stdout result) = Some out"
    and "returncode result \<noteq> 0 \<longrightarrow> utf8_decode (stderr result) = Some err"
  shows "fst (scan_and_respond E cfg w) = Returned
       \<and> events (snd (scan_and_respond E cfg w))
           = events w
             @ [SendText (str_int (returncode result)),
                SendText (json_dumps E
                  \<lparr>successful = (returncode result = 0),
                   message = (if returncode result = 0 then out else err @ out)\<rparr>)]"
proof -
  have t: "agent_log_str result = Some (if returncode result = 0 then out else err @ out)"
    using assms(3,4) by (simp add: agent_log_str_def)
  have e2: "events w2 = events w"
  proof -
    have "events w2 = events (snd (scan_component E (tmp_dir E) (tmp_dir E) cfg w1))"
      by (simp add: assms(2))
    also have "\<dots> = events w1" by (rule scan_component_events)
    also have "\<dots> = events (snd (get_wss_agent_hardlink E (tmp_dir E)
                                   (log_msg (Info ''scan start'') w)))"
      by (simp add: assms(1))
    also have "\<dots> = events w" by (simp add: hardlink_events log_msg_def)
    finally show ?thesis .
  qed
  show ?thesis
    unfolding scan_and_respond_completed [OF assms(1,2)] t
    by (simp add: ws_send_text_def build_scan_result_response_def e2)
qed

lemma utf8_samples:
  "utf8_decode [0x6F, 0x6B] = Some [111, 107]"
  "utf8_decode [0x6F] = Some [111]"
  "utf8_decode [0x65] = Some [101]"
  "utf8_decode [] = Some []"
  "utf8_decode [0xFF] = None"
  by (simp_all add: utf8_decode.simps utf8_trail_def utf8_cont_def utf8_point_def
        utf8_scalar_ok_def)

lemma str_int_samples: "str_int 0 = ''0''" "str_int 2 = ''2''"
  by (simp_all add: str_int_def str_nat.simps)

lemma sample_hardlink:
  assumes "requests_get E = Inr [5]" and "tmpfile_ok E" and "tmp_dir E = ''/t''"
    and "wss_agent_name E = ''agent.jar''"
  shows "fst (get_wss_agent_hardlink E ''/t'' (log_msg (Info ''scan start'') (sample_world [])))
           = Inr ''/t/agent.jar''"
  using assms
  by (simp add: get_wss_agent_hardlink_def update_or_download_agent_def
        pull_latest_wss_agent_def log_msg_def sample_world_def Let_def fs_lookup_def
        posix_join_def startswith_def endswith_def)

lemma sample_scan:
  assumes "subprocess_run E = (\<lambda>args fs. Inr result)"
  shows "fst (scan_component E a b cfg w) = Inr result"
  using assms
  by (simp add: scan_component_def generate_config_def run_whitesource_scan_def Let_def)

lemma sample_env_fields:
  "requests_get (sample_env\<lparr>subprocess_run := f\<rparr>) = Inr [5]"
  "tmpfile_ok (sample_env\<lparr>subprocess_run := f\<rparr>)"
  "tmp_dir (sample_env\<lparr>subprocess_run := f\<rparr>) = ''/t''"
  "wss_agent_name (sample_env\<lparr>subprocess_run := f\<rparr>) = ''agent.jar''"
  "json_dumps (sample_env\<lparr>subprocess_run := f\<rparr>) = sample_json"
  "requests_get sample_env = Inr [5]"
  "tmpfile_ok sample_env"
  "wss_agent_name sample_env = ''agent.jar''"
  "json_dumps sample_env = sample_json"
  "subprocess_run sample_env
     = (\<lambda>args fs. Inr \<lparr>returncode = 0, stdout = [0x6F, 0x6B], stderr = []\<rparr>)"
  by (simp_all add: sample_env_def)

theorem scan_result_messages_witness:
  "utf8_decode [0x6F, 0x6B] = Some [111, 107]
   \<and> fst (scan_and_respond sample_env sample_config (sample_world [])) = Returned
   \<and> events (snd (scan_and_respond sample_env sample_config (sample_world [])))
       = [SendText ''0'', SendText (sample_json \<lparr>successful = True, message = [111, 107]\<rparr>)]
   \<and> utf8_decode [0x65] = Some [101] \<and> utf8_decode [0x6F] = Some [111]
   \<and> fst (scan_and_respond
            (sample_env\<lparr>subprocess_run :=
               \<lambda>args fs. Inr \<lparr>returncode = 2, stdout = [0x6F], stderr = [0x65]\<rparr>\<rparr>)
            sample_config (sample_world [])) = Returned
   \<and> events (snd (scan_and_respond
            (sample_env\<lparr>subprocess_run :=
               \<lambda>args fs. Inr \<lparr>returncode = 2, stdout = [0x6F], stderr = [0x65]\<rparr>\<rparr>)
            sample_config (sample_world [])))
       = [SendText ''2'', SendText (sample_json \<lparr>successful = False, message = [101, 111]\<rparr>)]"
proof -
  let ?w0 = "log_msg (Info ''scan start'') (sample_world [])"
  let ?E2 = "sample_env\<lparr>subprocess_run :=
               \<lambda>args fs. Inr \<lparr>returncode = 2, stdout = [0x6F], stderr = [0x65]\<rparr>\<rparr>"
  let ?r1 = "\<lparr>returncode = 0, stdout = [0x6F, 0x6B], stderr = []\<rparr> :: completed_process"
  let ?r2 = "\<lparr>returncode = 2, stdout = [0x6F], stderr = [0x65]\<rparr> :: completed_process"
  have h1: "get_wss_agent_hardlink sample_env (tmp_dir sample_env) ?w0
              = (Inr ''/t/agent.jar'', snd (get_wss_agent_hardlink sample_env ''/t'' ?w0))"
    using sample_hardlink [of sample_env]
    by (simp add: prod_eq_iff sample_env_fields sample_env_simps)
  have s1: "scan_component sample_env (tmp_dir sample_env) (tmp_dir sample_env) sample_config
              (snd (get_wss_agent_hardlink sample_env ''/t'' ?w0))
            = (Inr ?r1,
               snd (scan_component sample_env ''/t'' ''/t'' sample_config
                      (snd (get_wss_agent_hardlink sample_env ''/t'' ?w0))))"
    using sample_scan [of sample_env ?r1]
    by (simp add: prod_eq_iff sample_env_fields sample_env_simps)
  have h2: "get_wss_agent_hardlink ?E2 (tmp_dir ?E2) ?w0
              = (Inr ''/t/agent.jar'', snd (get_wss_agent_hardlink ?E2 ''/t'' ?w0))"
    using sample_hardlink [of ?E2]
    by (simp add: prod_eq_iff sample_env_fields)
  have s2: "scan_component ?E2 (tmp_dir ?E2) (tmp_dir ?E2) sample_config
              (snd (get_wss_agent_hardlink ?E2 ''/t'' ?w0))
            = (Inr ?r2,
               snd (scan_component ?E2 ''/t'' ''/t'' sample_config
                      (snd (get_wss_agent_hardlink ?E2 ''/t'' ?w0))))"
    using sample_scan [of ?E2 ?r2]
    by (simp add: prod_eq_iff sample_env_fields)
  from scan_result_messages [OF h1 s1, of "[111, 107]" "[]"]
       scan_result_messages [OF h2 s2, of "[111]" "[101]"]
  show ?thesis
    by (simp add: utf8_samples str_int_samples sample_env_fields sample_world_def)
qed

text \<open>
  The claim as stated fails for a run whose output is not UTF-8: with the single byte
  \<open>0xFF\<close> on \<^verbatim>\<open>stdout\<close> and exit code 0, \<^verbatim>\<open>decode('utf-8')\<close> raises, the handler ends
  with \<^verbatim>\<open>UnicodeDecodeError\<close> and no message is sent.
\<close>

theorem scan_result_counterexample:
  "fst (scan_and_respond
          (sample_env\<lparr>subprocess_run :=
             \<lambda>args fs. Inr \<lparr>returncode = 0, stdout = [0xFF], stderr = []\<rparr>\<rparr>)
          sample_config (sample_world [])) = Raised UnicodeDecodeError
   \<and> events (snd (scan_and_respond
          (sample_env\<lparr>subprocess_run :=
             \<lambda>args fs. Inr \<lparr>returncode = 0, stdout = [0xFF], stderr = []\<rparr>\<rparr>)
          sample_config (sample_world []))) = []"
proof -
  let ?w0 = "log_msg (Info ''scan start'') (sample_world [])"
  let ?E = "sample_env\<lparr>subprocess_run :=
             \<lambda>args fs. Inr \<lparr>returncode = 0, stdout = [0xFF], stderr = []\<rparr>\<rparr>"
  let ?r = "\<lparr>returncode = 0, stdout = [0xFF], stderr = []\<rparr> :: completed_process"
  let ?w1 = "snd (get_wss_agent_hardlink ?E ''/t'' ?w0)"
  let ?w2 = "snd (scan_component ?E ''/t'' ''/t'' sample_config ?w1)"
  have h: "get_wss_agent_hardlink ?E (tmp_dir ?E) ?w0 = (Inr ''/t/agent.jar'', ?w1)"
    using sample_hardlink [of ?E]
    by (simp add: prod_eq_iff sample_env_fields)
  have s: "scan_component ?E (tmp_dir ?E) (tmp_dir ?E) sample_config ?w1 = (Inr ?r, ?w2)"
    using sample_scan [of ?E ?r]
    by (simp add: prod_eq_iff sample_env_fields)
  have a: "agent_log_str ?r = None"
    by (simp add: agent_log_str_def utf8_samples)
  have e: "events ?w2 = []"
    by (simp add: scan_component_events hardlink_events log_msg_def sample_world_def)
  show ?thesis
    unfolding scan_and_respond_completed [OF h s] a
    by (simp add: e)
qed

section \<open>Where extraction places files\<close>

























section \<open>The directory of an inner archive\<close>

text \<open>
  C3. The source tests the name with \<^verbatim>\<open>endswith('.tar')\<close> and then names the directory
  with \<^verbatim>\<open>file.replace('.tar', '')\<close>, which removes every occurrence of \<^verbatim>\<open>.tar\<close>, not only
  the suffix. For the inner archive \<^verbatim>\<open>a.tar.b.tar\<close> the members are extracted into
  \<^verbatim>\<open>a.b\<close>, not into \<^verbatim>\<open>a.tar.b\<close>; the archive file itself is removed.
\<close>

theorem interior_tar_is_removed_too:
  "extract_archives (sample_env\<lparr>untar := untar_interior\<rparr>)
       ((sample_world [])\<lparr>staged := [1, 2, 3]\<rparr>)
     = (None,
        (sample_world [])
          \<lparr>staged := [1, 2, 3], files := [([''t'', ''a.b'', ''f''], File [])]\<rparr>)
   \<and> layer_dir (sample_env\<lparr>untar := untar_interior\<rparr>) ''a.tar.b.tar'' = ''/t/a.b''
   \<and> layer_dir (sample_env\<lparr>untar := untar_interior\<rparr>) ''a.tar.b.tar'' \<noteq> ''/t/a.tar.b''"
  by code_simp

section \<open>A fault inside an inner archive\<close>

text \<open>
  C4. The \<^verbatim>\<open>try\<close> that catches \<^verbatim>\<open>StreamError\<close> and \<^verbatim>\<open>KeyError\<close> encloses the whole
  \<^verbatim>\<open>while\<close> loop over the members, so the fault ends the loop: for the inner archive
  with the members \<^verbatim>\<open>a\<close>, a faulty link and \<^verbatim>\<open>b\<close>, only \<^verbatim>\<open>a\<close> is extracted and \<^verbatim>\<open>b\<close>,
  which comes after the fault, is not. The warning is logged, the archive file is
  removed and extraction ends without an exception; the session with this payload goes
  on to the scan and sends the two result messages.
\<close>

theorem fault_ends_the_layer:
  "extract_archives (sample_env\<lparr>untar := untar_faulty\<rparr>)
       ((sample_world [])\<lparr>staged := [1, 2, 3]\<rparr>)
     = (None,
        (sample_world [])
          \<lparr>staged := [1, 2, 3],
           files := [([''t'', ''layer'', ''a''], File [10])],
           logs := [Warn ''skipping duplicate (probably symlink)'']\<rparr>)
   \<and> fs_lookup [''t'', ''layer'', ''b'']
        (files (snd (extract_archives (sample_env\<lparr>untar := untar_faulty\<rparr>)
                       ((sample_world [])\<lparr>staged := [1, 2, 3]\<rparr>)))) = None
   \<and> fst (on_websocket (sample_env\<lparr>untar := untar_faulty\<rparr>)
            (sample_world [TextFrame ''m32'', TextFrame ''cfg'', DataFrame [1, 2], DataFrame [3]]))
       = Returned
   \<and> events (snd (on_websocket (sample_env\<lparr>untar := untar_faulty\<rparr>)
            (sample_world [TextFrame ''m32'', TextFrame ''cfg'', DataFrame [1, 2], DataFrame [3]])))
       = [Accept, ReceiveText, ReceiveText, ReceiveData, ReceiveData,
          SendText ''0'', SendText ''ok:ok'']"
  by code_simp

end
